theory Spec2Isabelle
  imports Complex_Main
begin

section \<open>Numbers and vectors\<close>

text \<open>
  The simulation of \<^verbatim>\<open>games.py\<close> computes with Python floats and pygame's
  \<^verbatim>\<open>Vector2\<close>. Numbers are modelled as \<^typ>\<open>real\<close> (rounding is not
  modelled), a \<^verbatim>\<open>Vector2\<close> as a pair of reals. The decimal constants of the source
  (\<^verbatim>\<open>0.45\<close>, \<^verbatim>\<open>0.8\<close>, ...) denote the exact decimal fractions. The one place where
  the rounding decides the result, the boundary of the collision test, is modelled in
  binary64 as well (section Collision).
\<close>

type_synonym vec = "real \<times> real"

definition vadd :: "vec \<Rightarrow> vec \<Rightarrow> vec" where
  "vadd a b = (fst a + fst b, snd a + snd b)"

definition vsub :: "vec \<Rightarrow> vec \<Rightarrow> vec" where
  "vsub a b = (fst a - fst b, snd a - snd b)"

definition vscale :: "vec \<Rightarrow> real \<Rightarrow> vec" where
  "vscale a c = (fst a * c, snd a * c)"

definition length_squared :: "vec \<Rightarrow> real" where
  "length_squared a = fst a * fst a + snd a * snd a"

definition vlength :: "vec \<Rightarrow> real" where
  "vlength a = sqrt (length_squared a)"

datatype error = ValueError

text \<open>The value \<^verbatim>\<open>Vector2.normalize\<close> returns when it returns.\<close>

definition unit_of :: "vec \<Rightarrow> vec" where
  "unit_of a = (fst a / vlength a, snd a / vlength a)"

text \<open>\<^verbatim>\<open>Vector2.normalize\<close>: pygame raises \<^verbatim>\<open>ValueError\<close> on a vector of length zero.\<close>

definition normalize :: "vec \<Rightarrow> error + vec" where
  "normalize a = (if vlength a = 0 then Inl ValueError else Inr (unit_of a))"

text \<open>\<^verbatim>\<open>def clamp(x, a, b): return max(a, min(b, x))\<close>\<close>

definition clamp :: "real \<Rightarrow> real \<Rightarrow> real \<Rightarrow> real" where
  "clamp x a b = max a (min b x)"

subsection \<open>Constants of the module\<close>

definition WIDTH :: real where "WIDTH = 1920"
definition HEIGHT :: real where "HEIGHT = 1080"
definition PLAYER_SPEED :: real where "PLAYER_SPEED = 180"
definition ROLL_SPEED :: real where "ROLL_SPEED = 420"
definition ATTACK_RANGE :: real where "ATTACK_RANGE = 48"
definition ATTACK_COOLDOWN :: real where "ATTACK_COOLDOWN = 0.45"
definition ROLL_COOLDOWN :: real where "ROLL_COOLDOWN = 0.8"
definition INVULN_TIME :: real where "INVULN_TIME = 0.28"
definition STAMINA_MAX :: real where "STAMINA_MAX = 100"
definition STAMINA_RECOVERY_RATE :: real where "STAMINA_RECOVERY_RATE = 20"
definition LIGHT_ATTACK_COST :: real where "LIGHT_ATTACK_COST = 12"
definition HEAVY_ATTACK_COST :: real where "HEAVY_ATTACK_COST = 28"
definition HEAVY_ATTACK_COOLDOWN :: real where "HEAVY_ATTACK_COOLDOWN = 1.0"
definition ENEMY_SPEED :: real where "ENEMY_SPEED = 100"
definition ENEMY_DAMAGE :: real where "ENEMY_DAMAGE = 12"

section \<open>Entity\<close>

record entity =
  pos :: vec
  vel :: vec
  radius :: real
  hp :: real
  max_hp :: real
  alive :: bool
  invuln_timer :: real

text \<open>\<^verbatim>\<open>Entity.__init__(self, pos, radius=18)\<close>\<close>

definition Entity_init :: "vec \<Rightarrow> real \<Rightarrow> entity" where
  "Entity_init p r =
     \<lparr>pos = p, vel = (0, 0), radius = r, hp = 100, max_hp = 100, alive = True,
      invuln_timer = 0\<rparr>"

text \<open>
  \<^verbatim>\<open>Entity.update_timers\<close> and \<^verbatim>\<open>Entity.take_damage\<close> are inherited by Player and
  Enemy, so they are defined on every extension of the entity record. The object is
  mutated in place in the source; the model returns the new object, \<open>take_damage\<close>
  together with the boolean the method returns.
\<close>

definition update_timers :: "real \<Rightarrow> 'a entity_scheme \<Rightarrow> 'a entity_scheme" where
  "update_timers dt e =
     (if invuln_timer e > 0 then e\<lparr>invuln_timer := max 0 (invuln_timer e - dt)\<rparr> else e)"

definition take_damage :: "real \<Rightarrow> 'a entity_scheme \<Rightarrow> bool \<times> 'a entity_scheme" where
  "take_damage amount e =
     (if invuln_timer e > 0 \<or> \<not> alive e then (False, e)
      else
        let e1 = e\<lparr>hp := hp e - amount\<rparr>;
            e2 = e1\<lparr>invuln_timer := 0.5\<rparr>;
            e3 = (if hp e2 \<le> 0 then e2\<lparr>alive := False\<rparr> else e2)
        in (True, e3))"

section \<open>Player\<close>

record player = entity +
  stamina :: real
  attack_timer :: real
  attack_cooldown :: real
  roll_timer :: real
  roll_cooldown :: real
  facing :: vec
  is_rolling :: bool

text \<open>\<^verbatim>\<open>Player.__init__(self, pos)\<close>: an entity of radius 16 with \<open>max_hp = hp = 120\<close>.\<close>

definition Player_init :: "vec \<Rightarrow> player" where
  "Player_init p =
     \<lparr>pos = p, vel = (0, 0), radius = 16, hp = 120, max_hp = 120, alive = True,
      invuln_timer = 0,
      stamina = STAMINA_MAX, attack_timer = 0, attack_cooldown = 0, roll_timer = 0,
      roll_cooldown = 0, facing = (1, 0), is_rolling = False\<rparr>"

text \<open>
  The input snapshot of one frame: the entries of \<^verbatim>\<open>keys\<close> and of
  \<^verbatim>\<open>mouse_buttons\<close> that \<^verbatim>\<open>Player.update\<close> reads (\<^verbatim>\<open>mouse_pos\<close> is never read).
\<close>

record input =
  K_w :: bool
  K_UP :: bool
  K_s :: bool
  K_DOWN :: bool
  K_a :: bool
  K_LEFT :: bool
  K_d :: bool
  K_RIGHT :: bool
  K_SPACE :: bool
  K_j :: bool
  K_k :: bool
  mouse0 :: bool
  mouse2 :: bool

text \<open>The snapshot with no key and no button pressed; the examples below start from it.\<close>

definition no_input :: input where
  "no_input =
     \<lparr>K_w = False, K_UP = False, K_s = False, K_DOWN = False, K_a = False, K_LEFT = False,
      K_d = False, K_RIGHT = False, K_SPACE = False, K_j = False, K_k = False,
      mouse0 = False, mouse2 = False\<rparr>"

text \<open>Lines 90--94: the raw movement vector \<^verbatim>\<open>mv\<close> built from the direction keys.\<close>

definition move_input :: "input \<Rightarrow> vec" where
  "move_input k =
     (let y1 = (if K_w k \<or> K_UP k then 0 - 1 else 0);
          y2 = (if K_s k \<or> K_DOWN k then y1 + 1 else y1);
          x1 = (if K_a k \<or> K_LEFT k then 0 - 1 else 0);
          x2 = (if K_d k \<or> K_RIGHT k then x1 + 1 else x1)
      in (x2, y2))"

text \<open>
  Lines 95--97: \<^verbatim>\<open>mv\<close> is normalised when it is not zero; the guard excludes the
  \<^verbatim>\<open>ValueError\<close> of \<^verbatim>\<open>normalize\<close>, so the model takes the value \<^const>\<open>unit_of\<close>.
\<close>

definition move_dir :: "input \<Rightarrow> vec" where
  "move_dir k = (if length_squared (move_input k) > 0 then unit_of (move_input k) else move_input k)"

definition face_step :: "input \<Rightarrow> player \<Rightarrow> player" where
  "face_step k p = (if length_squared (move_input k) > 0 then p\<lparr>facing := move_dir k\<rparr> else p)"

text \<open>Lines 99--100: stamina regeneration, skipped while rolling.\<close>

definition regen_step :: "real \<Rightarrow> player \<Rightarrow> player" where
  "regen_step dt p =
     (if \<not> is_rolling p
      then p\<lparr>stamina := clamp (stamina p + STAMINA_RECOVERY_RATE * dt) 0 STAMINA_MAX\<rparr>
      else p)"

text \<open>Lines 102--109: the roll.\<close>

definition roll_step :: "input \<Rightarrow> player \<Rightarrow> player" where
  "roll_step k p =
     (if roll_cooldown p \<le> 0 \<and> (K_SPACE k \<or> mouse2 k) then
        (if stamina p \<ge> 20 then
           p\<lparr>is_rolling := True,
             roll_timer := 0.26,
             roll_cooldown := ROLL_COOLDOWN,
             invuln_timer := INVULN_TIME,
             stamina := stamina p - 20,
             vel := vscale (facing p) ROLL_SPEED\<rparr>
         else p)
      else p)"

text \<open>
  Lines 111--117: the light attack. The local flag \<^verbatim>\<open>attacking\<close> starts False; the
  step returns the player and the flag.
\<close>

definition light_step :: "input \<Rightarrow> player \<Rightarrow> player \<times> bool" where
  "light_step k p =
     (if attack_cooldown p \<le> 0 \<and> (K_j k \<or> mouse0 k) then
        (if stamina p \<ge> LIGHT_ATTACK_COST then
           (p\<lparr>attack_timer := 0.18,
              attack_cooldown := ATTACK_COOLDOWN,
              stamina := stamina p - LIGHT_ATTACK_COST\<rparr>, True)
         else (p, False))
      else (p, False))"

text \<open>Lines 118--123: the heavy attack, on the player and flag the light attack left.\<close>

definition heavy_step :: "input \<Rightarrow> player \<times> bool \<Rightarrow> player \<times> bool" where
  "heavy_step k pa =
     (let p = fst pa; attacking = snd pa in
      if attack_cooldown p \<le> 0 \<and> K_k k then
        (if stamina p \<ge> HEAVY_ATTACK_COST then
           (p\<lparr>attack_timer := 0.34,
              attack_cooldown := HEAVY_ATTACK_COOLDOWN,
              stamina := stamina p - HEAVY_ATTACK_COST\<rparr>, True)
         else (p, attacking))
      else (p, attacking))"

text \<open>Lines 125--135: the four countdowns of the player, one block each.\<close>

definition tick_attack_timer :: "real \<Rightarrow> player \<Rightarrow> player" where
  "tick_attack_timer dt p =
     (if attack_timer p > 0 then p\<lparr>attack_timer := max 0 (attack_timer p - dt)\<rparr> else p)"

definition tick_attack_cooldown :: "real \<Rightarrow> player \<Rightarrow> player" where
  "tick_attack_cooldown dt p =
     (if attack_cooldown p > 0 then p\<lparr>attack_cooldown := max 0 (attack_cooldown p - dt)\<rparr>
      else p)"

definition tick_roll_timer :: "real \<Rightarrow> player \<Rightarrow> player" where
  "tick_roll_timer dt p =
     (if roll_timer p > 0 then
        (let q = p\<lparr>roll_timer := max 0 (roll_timer p - dt)\<rparr>
         in if roll_timer q = 0 then q\<lparr>is_rolling := False, vel := (0, 0)\<rparr> else q)
      else p)"

definition tick_roll_cooldown :: "real \<Rightarrow> player \<Rightarrow> player" where
  "tick_roll_cooldown dt p =
     (if roll_cooldown p > 0 then p\<lparr>roll_cooldown := max 0 (roll_cooldown p - dt)\<rparr> else p)"

definition tick_step :: "real \<Rightarrow> player \<Rightarrow> player" where
  "tick_step dt p =
     tick_roll_cooldown dt (tick_roll_timer dt (tick_attack_cooldown dt (tick_attack_timer dt p)))"

text \<open>Lines 137--142: velocity blending, integration and the clamp to the arena.\<close>

definition move_step :: "real \<Rightarrow> vec \<Rightarrow> bool \<Rightarrow> player \<Rightarrow> player" where
  "move_step dt mv attacking p =
     (let p1 = (if \<not> is_rolling p \<and> \<not> attacking
                then p\<lparr>vel := vadd (vel p)
                       (vscale (vsub (vscale mv PLAYER_SPEED) (vel p)) (clamp (10 * dt) 0 1))\<rparr>
                else p);
          p2 = p1\<lparr>pos := vadd (pos p1) (vscale (vel p1) dt)\<rparr>;
          p3 = p2\<lparr>pos := (clamp (fst (pos p2)) 20 (WIDTH - 20), snd (pos p2))\<rparr>;
          p4 = p3\<lparr>pos := (fst (pos p3), clamp (snd (pos p3)) 20 (HEIGHT - 20))\<rparr>
      in p4)"

text \<open>\<^verbatim>\<open>Player.update(self, dt, keys, mouse_pos, mouse_buttons)\<close>: the blocks in source order.\<close>

definition player_update :: "real \<Rightarrow> input \<Rightarrow> player \<Rightarrow> player" where
  "player_update dt k p =
     (let p1 = update_timers dt p;
          p2 = face_step k p1;
          p3 = regen_step dt p2;
          p4 = roll_step k p3;
          pa = heavy_step k (light_step k p4);
          p5 = tick_step dt (fst pa)
      in move_step dt (move_dir k) (snd pa) p5)"

text \<open>A run of frames, each with its own \<^verbatim>\<open>dt\<close> and input snapshot.\<close>

fun player_frames :: "(real \<times> input) list \<Rightarrow> player \<Rightarrow> player" where
  "player_frames [] p = p"
| "player_frames (f # fs) p = player_frames fs (player_update (fst f) (snd f) p)"

text \<open>
  \<^verbatim>\<open>Player.attack_hitbox\<close>: \<^verbatim>\<open>None\<close> without an active attack; otherwise the centre
  and radius, where \<^verbatim>\<open>self.facing.normalize()\<close> may raise.
\<close>

definition attack_hitbox :: "player \<Rightarrow> error + (vec \<times> real) option" where
  "attack_hitbox p =
     (if attack_timer p > 0 then
        (case normalize (facing p) of
           Inl err \<Rightarrow> Inl err
         | Inr n \<Rightarrow>
             Inr (Some (vadd (pos p) (vscale n (radius p + ATTACK_RANGE / 2)),
                        ATTACK_RANGE / 1.6)))
      else Inr None)"

section \<open>Collision\<close>

text \<open>
  \<^verbatim>\<open>def circle_collide(a_pos, a_r, b_pos, b_r)\<close>, first over the reals: the test without
  rounding, used with the real-valued entities of this theory.
\<close>

definition circle_collide :: "vec \<Rightarrow> real \<Rightarrow> vec \<Rightarrow> real \<Rightarrow> bool" where
  "circle_collide a_pos a_r b_pos b_r \<longleftrightarrow> length_squared (vsub a_pos b_pos) \<le> (a_r + b_r)\<^sup>2"

subsection \<open>Binary64 arithmetic\<close>

text \<open>
  The numbers of the program are IEEE 754 binary64 values, and what \<^verbatim>\<open>circle_collide\<close>
  returns at the boundary depends on their rounding. A finite double is modelled as a pair
  \<open>(m, e)\<close> of integers denoting \<^verbatim>\<open>m * 2**e\<close>; an operation computes the exact result and
  rounds it to a significand of 53 bits, to nearest, ties to even. The exponent range is not
  modelled: no overflow, no subnormal numbers, no infinities or NaN.
\<close>

type_synonym double = "int \<times> int"


text \<open>The number of bits of a natural number, Python's \<^verbatim>\<open>int.bit_length\<close>.\<close>

fun bit_length :: "nat \<Rightarrow> nat" where
  "bit_length n = (if n = 0 then 0 else Suc (bit_length (n div 2)))"

text \<open>
  Rounding of the exact result \<^verbatim>\<open>m * 2**e\<close>: a significand of more than 53 bits loses its
  low \<open>s\<close> bits; the quotient goes up when the remainder is above the half, or is the half
  and the quotient is odd.
\<close>

definition round64 :: "double \<Rightarrow> double" where
  "round64 d =
     (let n = nat \<bar>fst d\<bar>; bl = bit_length n in
      if bl \<le> 53 then d
      else
        let s = bl - 53;
            q = n div 2 ^ s;
            r = n mod 2 ^ s;
            h = 2 ^ (s - 1);
            q' = (if r > h \<or> (r = h \<and> odd q) then q + 1 else q)
        in (sgn (fst d) * int q', snd d + int s))"











section \<open>Enemy\<close>

text \<open>
  The field \<^verbatim>\<open>attack_cooldown\<close> of an Enemy is named \<open>enemy_attack_cooldown\<close>, apart
  from the Player's field of the same name.
\<close>

record enemy = entity +
  enemy_attack_cooldown :: real
  speed :: real
  respawn_time :: real

text \<open>\<^verbatim>\<open>Enemy.__init__(self, pos)\<close>\<close>

definition Enemy_init :: "vec \<Rightarrow> enemy" where
  "Enemy_init p =
     \<lparr>pos = p, vel = (0, 0), radius = 16, hp = 80, max_hp = 80, alive = True,
      invuln_timer = 0,
      enemy_attack_cooldown = 0, speed = ENEMY_SPEED, respawn_time = 0\<rparr>"

text \<open>
  The random numbers one call of \<^verbatim>\<open>Enemy.update\<close> may draw, supplied by the caller:
  \<^verbatim>\<open>random.uniform(3.0, 6.0)\<close> and the two \<^verbatim>\<open>random.random()\<close> of the wander branch.
\<close>

record draws =
  respawn_draw :: real
  wander_roll :: real
  wander_angle :: real

text \<open>Lines 172--178: the body of the \<^verbatim>\<open>if not self.alive\<close> branch.\<close>

definition respawn_step :: "real \<Rightarrow> draws \<Rightarrow> enemy \<Rightarrow> enemy" where
  "respawn_step dt rnd e =
     (if respawn_time e \<le> 0 then e\<lparr>respawn_time := respawn_draw rnd\<rparr>
      else
        let e1 = e\<lparr>respawn_time := respawn_time e - dt\<rparr>
        in if respawn_time e1 \<le> 0 then e1\<lparr>alive := True, hp := max_hp e1\<rparr> else e1)"

text \<open>Lines 191--192: the countdown of the enemy's attack cooldown.\<close>

definition enemy_tick :: "real \<Rightarrow> enemy \<Rightarrow> enemy" where
  "enemy_tick dt e =
     (if enemy_attack_cooldown e > 0
      then e\<lparr>enemy_attack_cooldown := max 0 (enemy_attack_cooldown e - dt)\<rparr> else e)"

text \<open>Lines 199--200: the clamp of the position to the arena.\<close>

definition clamp_pos :: "enemy \<Rightarrow> enemy" where
  "clamp_pos e =
     (let e1 = e\<lparr>pos := (clamp (fst (pos e)) 20 (WIDTH - 20), snd (pos e))\<rparr>
      in e1\<lparr>pos := (fst (pos e1), clamp (snd (pos e1)) 20 (HEIGHT - 20))\<rparr>)"

text \<open>Lines 188--190: the melee attack; it mutates the enemy and the player.\<close>

definition melee_step :: "enemy \<Rightarrow> player \<Rightarrow> enemy \<times> player" where
  "melee_step e pl =
     (if enemy_attack_cooldown e \<le> 0 \<and> invuln_timer pl \<le> 0
      then (e\<lparr>enemy_attack_cooldown := 1.0\<rparr>, snd (take_damage ENEMY_DAMAGE pl))
      else (e, pl))"

text \<open>Lines 194--198: the wander branch.\<close>

definition wander_step :: "real \<Rightarrow> draws \<Rightarrow> enemy \<Rightarrow> enemy" where
  "wander_step dt rnd e =
     (let e1 = e\<lparr>vel := vscale (vel e) 0.9\<rparr>;
          e2 = (if wander_roll rnd < 0.01
                then (let ang = wander_angle rnd * (2 * pi)
                      in e1\<lparr>vel := vscale (cos ang, sin ang) (speed e1 * 0.5)\<rparr>)
                else e1)
      in e2\<lparr>pos := vadd (pos e2) (vscale (vel e2) dt)\<rparr>)"

text \<open>
  \<^verbatim>\<open>Enemy.update(self, dt, player)\<close>. It returns the enemy and the player, or the
  \<^verbatim>\<open>ValueError\<close> of \<^verbatim>\<open>to_player.normalize()\<close>.
\<close>

definition enemy_update :: "real \<Rightarrow> draws \<Rightarrow> enemy \<Rightarrow> player \<Rightarrow> error + (enemy \<times> player)" where
  "enemy_update dt rnd e pl =
     (let e1 = update_timers dt e in
      if \<not> alive e1 then Inr (respawn_step dt rnd e1, pl)
      else
        let to_player = vsub (pos pl) (pos e1);
            dist = vlength to_player
        in if dist < 300 then
             (if dist > radius e1 + radius pl + 6 then
                (case normalize to_player of
                   Inl err \<Rightarrow> Inl err
                 | Inr n \<Rightarrow>
                     let e2 = e1\<lparr>vel := vscale n (speed e1)\<rparr>;
                         e3 = e2\<lparr>pos := vadd (pos e2) (vscale (vel e2) dt)\<rparr>
                     in Inr (clamp_pos (enemy_tick dt e3), pl))
              else
                let ep = melee_step e1 pl
                in Inr (clamp_pos (enemy_tick dt (fst ep)), snd ep))
           else Inr (clamp_pos (wander_step dt rnd e1), pl))"

section \<open>Combat resolution\<close>

text \<open>
  Lines 248--252 of \<^verbatim>\<open>main_loop\<close>: one enemy against the hitbox \<open>(center, radius)\<close>
  of the frame. The guard on \<^verbatim>\<open>dir\<close> excludes the \<^verbatim>\<open>ValueError\<close> of \<^verbatim>\<open>normalize\<close>.
\<close>

definition hit_enemy :: "vec \<times> real \<Rightarrow> player \<Rightarrow> enemy \<Rightarrow> enemy" where
  "hit_enemy hit pl en =
     (if alive en \<and> circle_collide (fst hit) (snd hit) (pos en) (radius en) then
        (let en1 = snd (take_damage 28 en);
             dir = vsub (pos en1) (pos pl)
         in if length_squared dir > 0
            then en1\<lparr>pos := vadd (pos en1) (vscale (unit_of dir) 12)\<rparr> else en1)
      else en)"

section \<open>The timer contract of the specification\<close>

text \<open>
  The specification's countdown rule, \<^verbatim>\<open>advance(timer, dt) -> max(0, timer - dt)\<close>. The
  source has no such function; the definition follows the specification's words and the
  countdowns of the source are compared with it.
\<close>

definition spec_advance :: "real \<Rightarrow> real \<Rightarrow> real" where
  "spec_advance timer dt = max 0 (timer - dt)"

section \<open>Invariants\<close>

text \<open>
  The health range the code keeps: never above \<open>max_hp\<close>, and positive while the entity
  is alive. A dead entity may have a negative \<open>hp\<close>.
\<close>

definition hp_ok :: "'a entity_scheme \<Rightarrow> bool" where
  "hp_ok e \<longleftrightarrow> hp e \<le> max_hp e \<and> 0 < max_hp e \<and> (alive e \<longrightarrow> 0 < hp e)"

text \<open>The stamina range of the data model.\<close>

definition stamina_ok :: "player \<Rightarrow> bool" where
  "stamina_ok p \<longleftrightarrow> 0 \<le> stamina p \<and> stamina p \<le> STAMINA_MAX"

section \<open>Facts about the model\<close>

lemmas consts_defs =
  WIDTH_def HEIGHT_def PLAYER_SPEED_def ROLL_SPEED_def ATTACK_RANGE_def ATTACK_COOLDOWN_def
  ROLL_COOLDOWN_def INVULN_TIME_def STAMINA_MAX_def STAMINA_RECOVERY_RATE_def
  LIGHT_ATTACK_COST_def HEAVY_ATTACK_COST_def HEAVY_ATTACK_COOLDOWN_def ENEMY_SPEED_def
  ENEMY_DAMAGE_def

subsection \<open>Vectors\<close>

lemma length_squared_nonneg: "0 \<le> length_squared a"
  by (simp add: length_squared_def)

lemma length_squared_vsub_commute: "length_squared (vsub a b) = length_squared (vsub b a)"
  by (simp add: length_squared_def vsub_def algebra_simps)

lemma vlength_squared: "(vlength a)\<^sup>2 = length_squared a"
  by (simp add: vlength_def length_squared_nonneg)

lemma vlength_nonneg: "0 \<le> vlength a"
  by (simp add: vlength_def length_squared_nonneg)

subsection \<open>Health is touched by damage and respawn only\<close>

lemma take_damage_max_hp [simp]: "max_hp (snd (take_damage amount e)) = max_hp e"
  by (simp add: take_damage_def Let_def)

lemma take_damage_hp_ok: "hp_ok e \<Longrightarrow> 0 \<le> amount \<Longrightarrow> hp_ok (snd (take_damage amount e))"
  by (simp add: hp_ok_def take_damage_def Let_def)

lemma hp_ok_cong:
  "hp e' = hp e \<Longrightarrow> max_hp e' = max_hp e \<Longrightarrow> alive e' = alive e \<Longrightarrow> hp_ok e \<Longrightarrow> hp_ok e'"
  by (simp add: hp_ok_def)

lemma update_timers_hp [simp]:
  "hp (update_timers dt e) = hp e" "max_hp (update_timers dt e) = max_hp e"
  "alive (update_timers dt e) = alive e"
  by (simp_all add: update_timers_def)

lemma face_step_hp [simp]:
  "hp (face_step k p) = hp p" "max_hp (face_step k p) = max_hp p"
  "alive (face_step k p) = alive p"
  by (simp_all add: face_step_def)

lemma regen_step_hp [simp]:
  "hp (regen_step dt p) = hp p" "max_hp (regen_step dt p) = max_hp p"
  "alive (regen_step dt p) = alive p"
  by (simp_all add: regen_step_def)

lemma roll_step_hp [simp]:
  "hp (roll_step k p) = hp p" "max_hp (roll_step k p) = max_hp p"
  "alive (roll_step k p) = alive p"
  by (simp_all add: roll_step_def)

lemma light_step_hp [simp]:
  "hp (fst (light_step k p)) = hp p" "max_hp (fst (light_step k p)) = max_hp p"
  "alive (fst (light_step k p)) = alive p"
  by (simp_all add: light_step_def)

lemma heavy_step_hp [simp]:
  "hp (fst (heavy_step k pa)) = hp (fst pa)" "max_hp (fst (heavy_step k pa)) = max_hp (fst pa)"
  "alive (fst (heavy_step k pa)) = alive (fst pa)"
  by (simp_all add: heavy_step_def Let_def)

lemma tick_attack_timer_hp [simp]:
  "hp (tick_attack_timer dt p) = hp p" "max_hp (tick_attack_timer dt p) = max_hp p"
  "alive (tick_attack_timer dt p) = alive p"
  by (simp_all add: tick_attack_timer_def)

lemma tick_attack_cooldown_hp [simp]:
  "hp (tick_attack_cooldown dt p) = hp p" "max_hp (tick_attack_cooldown dt p) = max_hp p"
  "alive (tick_attack_cooldown dt p) = alive p"
  by (simp_all add: tick_attack_cooldown_def)

lemma tick_roll_timer_hp [simp]:
  "hp (tick_roll_timer dt p) = hp p" "max_hp (tick_roll_timer dt p) = max_hp p"
  "alive (tick_roll_timer dt p) = alive p"
  by (simp_all add: tick_roll_timer_def Let_def)

lemma tick_roll_cooldown_hp [simp]:
  "hp (tick_roll_cooldown dt p) = hp p" "max_hp (tick_roll_cooldown dt p) = max_hp p"
  "alive (tick_roll_cooldown dt p) = alive p"
  by (simp_all add: tick_roll_cooldown_def)

lemma tick_step_hp [simp]:
  "hp (tick_step dt p) = hp p" "max_hp (tick_step dt p) = max_hp p"
  "alive (tick_step dt p) = alive p"
  by (simp_all add: tick_step_def)

lemma move_step_hp [simp]:
  "hp (move_step dt mv a p) = hp p" "max_hp (move_step dt mv a p) = max_hp p"
  "alive (move_step dt mv a p) = alive p"
  by (simp_all add: move_step_def Let_def)

lemma player_update_hp:
  "hp (player_update dt k p) = hp p \<and> max_hp (player_update dt k p) = max_hp p \<and>
   alive (player_update dt k p) = alive p"
  by (simp add: player_update_def Let_def)

lemma player_update_hp_ok: "hp_ok p \<Longrightarrow> hp_ok (player_update dt k p)"
  by (rule hp_ok_cong [of _ p]) (simp_all add: player_update_hp)

lemma respawn_step_hp_ok: "hp_ok e \<Longrightarrow> hp_ok (respawn_step dt rnd e)"
  by (simp add: hp_ok_def respawn_step_def Let_def)

lemma clamp_pos_hp [simp]: "hp (clamp_pos e) = hp e" "max_hp (clamp_pos e) = max_hp e"
  "alive (clamp_pos e) = alive e"
  by (simp_all add: clamp_pos_def Let_def)

lemma enemy_tick_hp [simp]: "hp (enemy_tick dt e) = hp e" "max_hp (enemy_tick dt e) = max_hp e"
  "alive (enemy_tick dt e) = alive e"
  by (simp_all add: enemy_tick_def)

lemma wander_step_hp [simp]:
  "hp (wander_step dt rnd e) = hp e" "max_hp (wander_step dt rnd e) = max_hp e"
  "alive (wander_step dt rnd e) = alive e"
  by (simp_all add: wander_step_def Let_def)

lemma melee_step_hp_ok:
  "hp_ok e \<Longrightarrow> hp_ok (fst (melee_step e pl))"
  "hp_ok pl \<Longrightarrow> hp_ok (snd (melee_step e pl))"
  by (simp_all add: melee_step_def take_damage_hp_ok ENEMY_DAMAGE_def) (simp add: hp_ok_def)

lemma enemy_update_hp_ok:
  assumes upd: "enemy_update dt rnd e pl = Inr (e', pl')"
    and e: "hp_ok e" and pl: "hp_ok pl"
  shows "hp_ok e' \<and> hp_ok pl'"
proof -
  define e1 where "e1 = update_timers dt e"
  have e1: "hp_ok e1" using e by (simp add: e1_def hp_ok_def)
  show ?thesis
  proof (cases "alive e1")
    case False
    with upd have "e' = respawn_step dt rnd e1" "pl' = pl"
      by (simp_all add: enemy_update_def Let_def e1_def)
    with e1 pl show ?thesis by (simp add: respawn_step_hp_ok)
  next
    case True
    note al = this
    show ?thesis
    proof (cases "vlength (vsub (pos pl) (pos e1)) < 300")
      case False
      with al upd have "e' = clamp_pos (wander_step dt rnd e1)" "pl' = pl"
        by (simp_all add: enemy_update_def Let_def e1_def)
      with e1 pl show ?thesis by (simp add: hp_ok_def)
    next
      case True
      note near = this
      show ?thesis
      proof (cases "vlength (vsub (pos pl) (pos e1)) > radius e1 + radius pl + 6")
        case False
        with al near upd have "e' = clamp_pos (enemy_tick dt (fst (melee_step e1 pl)))"
          "pl' = snd (melee_step e1 pl)"
          by (simp_all add: enemy_update_def Let_def e1_def)
        moreover have "hp_ok (clamp_pos (enemy_tick dt (fst (melee_step e1 pl))))"
          by (rule hp_ok_cong [OF _ _ _ melee_step_hp_ok(1) [OF e1, of pl]]) simp_all
        ultimately show ?thesis using pl by (simp add: melee_step_hp_ok)
      next
        case True
        with al near upd obtain n where
          "e' = clamp_pos (enemy_tick dt (e1\<lparr>vel := vscale n (speed e1),
                  pos := vadd (pos e1) (vscale (vscale n (speed e1)) dt)\<rparr>))" "pl' = pl"
          by (auto simp: enemy_update_def Let_def e1_def split: sum.splits)
        with e1 pl show ?thesis by (simp add: hp_ok_def)
      qed
    qed
  qed
qed

lemma hit_enemy_hp_ok: "hp_ok en \<Longrightarrow> hp_ok (hit_enemy hit pl en)"
proof (cases "alive en \<and> circle_collide (fst hit) (snd hit) (pos en) (radius en)")
  case False
  then have "hit_enemy hit pl en = en" by (auto simp: hit_enemy_def)
  moreover assume "hp_ok en"
  ultimately show ?thesis by simp
next
  case True
  assume "hp_ok en"
  then have t: "hp_ok (snd (take_damage 28 en))" by (simp add: take_damage_hp_ok)
  have "hp_ok (hit_enemy hit pl en)"
    by (rule hp_ok_cong [OF _ _ _ t]) (simp_all add: hit_enemy_def Let_def True)
  then show ?thesis .
qed

lemma dead_enemy_update:
  "enemy_update 0.01 \<lparr>respawn_draw = 4, wander_roll = 0.5, wander_angle = 0\<rparr>
     ((Enemy_init (0, 0))\<lparr>hp := - 4, alive := False, respawn_time := 0.005\<rparr>) (Player_init (0, 0))
   = Inr ((Enemy_init (0, 0))\<lparr>hp := 80, alive := True, respawn_time := - 0.005\<rparr>, Player_init (0, 0))"
  by (simp add: enemy_update_def update_timers_def respawn_step_def Enemy_init_def Let_def)

section \<open>Health bounds (C1)\<close>

text \<open>
  C1, as stated, asks for \<open>0 \<le> hp \<le> max_hp\<close> under every operation, and in particular
  for a non-negative \<open>hp\<close> after \<open>take_damage\<close> on an alive entity that is not
  invulnerable. \<open>take_damage\<close> subtracts without a clamp: an enemy created with 80 hit
  points and struck three times by the hitbox damage 28, the grace period of 0.5 elapsing
  between the strikes, is alive and vulnerable before the third strike and has \<open>hp = -4\<close>
  after it.
\<close>

theorem hp_negative_counterexample:
  "alive (update_timers 0.5 (snd (take_damage 28
       (update_timers 0.5 (snd (take_damage 28 (Enemy_init (0, 0)))))))) \<and>
   \<not> invuln_timer (update_timers 0.5 (snd (take_damage 28
       (update_timers 0.5 (snd (take_damage 28 (Enemy_init (0, 0)))))))) > 0 \<and>
   hp (snd (take_damage 28 (update_timers 0.5 (snd (take_damage 28
       (update_timers 0.5 (snd (take_damage 28 (Enemy_init (0, 0)))))))))) = - 4"
  by (simp add: take_damage_def update_timers_def Enemy_init_def Let_def)

text \<open>
  C1, amended: under every operation of the simulation (\<open>take_damage\<close> with an amount
  that is not negative, \<open>Player.update\<close>, \<open>Enemy.update\<close>, which respawns an enemy at
  \<open>max_hp\<close> and lets it strike the player, and the resolution of the player's hitbox
  against an enemy) \<open>hp\<close> stays at most \<open>max_hp\<close>, and it stays positive while the entity
  is alive; new players and enemies start so. There is no lower bound for a dead entity:
  an accepted \<open>take_damage\<close> leaves exactly \<open>hp - amount\<close>, which is non-negative iff the
  amount does not exceed the health before the call.
\<close>

theorem hp_bounds_preserved:
  "(hp_ok e \<and> 0 \<le> amount \<longrightarrow> hp_ok (snd (take_damage amount e))) \<and>
   (fst (take_damage amount e) \<longrightarrow>
      hp (snd (take_damage amount e)) = hp e - amount \<and>
      (0 \<le> hp (snd (take_damage amount e)) \<longleftrightarrow> amount \<le> hp e)) \<and>
   (hp_ok p \<longrightarrow> hp_ok (player_update dt k p)) \<and>
   (hp_ok en \<and> hp_ok p \<and> enemy_update dt rnd en p = Inr (en', p') \<longrightarrow> hp_ok en' \<and> hp_ok p') \<and>
   (hp_ok en \<longrightarrow> hp_ok (hit_enemy hit p en)) \<and>
   hp_ok (Player_init x) \<and> hp_ok (Enemy_init x)"
proof (intro conjI impI)
  assume "hp_ok e \<and> 0 \<le> amount"
  then show "hp_ok (snd (take_damage amount e))"
    by (simp add: take_damage_hp_ok)
next
  assume "fst (take_damage amount e)"
  then show "hp (snd (take_damage amount e)) = hp e - amount"
    and "0 \<le> hp (snd (take_damage amount e)) \<longleftrightarrow> amount \<le> hp e"
    by (auto simp: take_damage_def Let_def split: if_splits)
next
  assume "hp_ok p"
  then show "hp_ok (player_update dt k p)"
    by (rule player_update_hp_ok)
next
  assume a: "hp_ok en \<and> hp_ok p \<and> enemy_update dt rnd en p = Inr (en', p')"
  then show "hp_ok en'" and "hp_ok p'"
    using enemy_update_hp_ok [of dt rnd en p en' p'] by simp_all
next
  assume "hp_ok en"
  then show "hp_ok (hit_enemy hit p en)"
    by (rule hit_enemy_hp_ok)
next
  show "hp_ok (Player_init x)" by (simp add: hp_ok_def Player_init_def)
  show "hp_ok (Enemy_init x)" by (simp add: hp_ok_def Enemy_init_def)
qed

theorem hp_bounds_preserved_witness:
  "hp_ok ((Enemy_init (0, 0))\<lparr>hp := 24\<rparr>) \<and>
   hp_ok (snd (take_damage 28 ((Enemy_init (0, 0))\<lparr>hp := 24\<rparr>))) \<and>
   hp (snd (take_damage 28 ((Enemy_init (0, 0))\<lparr>hp := 24\<rparr>))) = - 4 \<and>
   \<not> alive (snd (take_damage 28 ((Enemy_init (0, 0))\<lparr>hp := 24\<rparr>))) \<and>
   hp_ok (player_update 0.01 no_input (Player_init (0, 0))) \<and>
   hp_ok ((Enemy_init (0, 0))\<lparr>hp := - 4, alive := False, respawn_time := 0.005\<rparr>) \<and>
   enemy_update 0.01 \<lparr>respawn_draw = 4, wander_roll = 0.5, wander_angle = 0\<rparr>
     ((Enemy_init (0, 0))\<lparr>hp := - 4, alive := False, respawn_time := 0.005\<rparr>) (Player_init (0, 0))
     = Inr ((Enemy_init (0, 0))\<lparr>hp := 80, alive := True, respawn_time := - 0.005\<rparr>,
            Player_init (0, 0)) \<and>
   hp_ok ((Enemy_init (0, 0))\<lparr>hp := 80, alive := True, respawn_time := - 0.005\<rparr>)"
proof -
  have h1: "hp_ok ((Enemy_init (0, 0))\<lparr>hp := 24\<rparr>)"
    and h2: "hp_ok ((Enemy_init (0, 0))\<lparr>hp := - 4, alive := False, respawn_time := 0.005\<rparr>)"
    and h3: "hp_ok (Player_init (0, 0))"
    by (simp_all add: hp_ok_def Enemy_init_def Player_init_def)
  have v: "hp (snd (take_damage 28 ((Enemy_init (0, 0))\<lparr>hp := 24\<rparr>))) = - 4"
    "\<not> alive (snd (take_damage 28 ((Enemy_init (0, 0))\<lparr>hp := 24\<rparr>)))"
    by (simp_all add: take_damage_def Enemy_init_def Let_def)
  from hp_bounds_preserved [where e = "(Enemy_init (0, 0))\<lparr>hp := 24\<rparr>" and amount = 28
      and p = "Player_init (0, 0)" and dt = "0.01" and k = no_input
      and hit = "((40, 0), 30)" and x = "(0, 0)"
      and en = "(Enemy_init (0, 0))\<lparr>hp := - 4, alive := False, respawn_time := 0.005\<rparr>"
      and rnd = "\<lparr>respawn_draw = 4, wander_roll = 0.5, wander_angle = 0\<rparr>"
      and en' = "(Enemy_init (0, 0))\<lparr>hp := 80, alive := True, respawn_time := - 0.005\<rparr>"
      and p' = "Player_init (0, 0)"] h1 h2 h3 v dead_enemy_update
  show ?thesis by simp
qed

section \<open>The damage rule (C2, C10)\<close>

text \<open>
  C2: \<open>take_damage\<close> returns False and leaves the entity as it is when
  \<open>invuln_timer > 0\<close> or the entity is not alive. Otherwise it returns True, subtracts the
  amount from \<open>hp\<close>, sets \<open>invuln_timer\<close> to 0.5 and sets \<open>alive\<close> to False iff the
  resulting \<open>hp\<close> is \<open>\<le> 0\<close>; no other field changes.
\<close>

theorem take_damage_contract:
  fixes e :: "'a entity_scheme"
  shows
  "(invuln_timer e > 0 \<or> \<not> alive e \<longrightarrow> take_damage amount e = (False, e)) \<and>
   (\<not> (invuln_timer e > 0 \<or> \<not> alive e) \<longrightarrow>
      fst (take_damage amount e) = True \<and>
      hp (snd (take_damage amount e)) = hp e - amount \<and>
      invuln_timer (snd (take_damage amount e)) = 0.5 \<and>
      (alive (snd (take_damage amount e)) = False \<longleftrightarrow> hp (snd (take_damage amount e)) \<le> 0) \<and>
      snd (take_damage amount e)
        = e\<lparr>hp := hp e - amount, invuln_timer := 0.5, alive := \<not> hp e - amount \<le> 0\<rparr>)"
  by (simp add: take_damage_def Let_def)

theorem take_damage_contract_witness:
  "take_damage 28 (Enemy_init (0, 0))
     = (True, (Enemy_init (0, 0))\<lparr>hp := 52, invuln_timer := 0.5\<rparr>) \<and>
   take_damage 28 ((Enemy_init (0, 0))\<lparr>hp := 52, invuln_timer := 0.5\<rparr>)
     = (False, (Enemy_init (0, 0))\<lparr>hp := 52, invuln_timer := 0.5\<rparr>)"
  using take_damage_contract [of "Enemy_init (0, 0)" 28]
    take_damage_contract [of "(Enemy_init (0, 0))\<lparr>hp := 52, invuln_timer := 0.5\<rparr>" 28]
  by (simp add: Enemy_init_def prod_eq_iff)

text \<open>
  C10: a blow that brings an alive, vulnerable entity to \<open>hp \<le> 0\<close> is accepted, sets
  \<open>invuln_timer\<close> to 0.5 and \<open>alive\<close> to False. Further damage is then rejected, and
  each of the two conditions rejects it alone: the entity would reject with \<open>alive\<close> put
  back to True (the timer is positive) and with the timer put back to 0 (it is dead).
\<close>

theorem killing_blow_keeps_invulnerability:
  fixes e :: "'a entity_scheme"
  assumes "alive e" and "invuln_timer e \<le> 0" and "hp e - amount \<le> 0"
  shows "fst (take_damage amount e) = True \<and>
         invuln_timer (snd (take_damage amount e)) = 0.5 \<and>
         alive (snd (take_damage amount e)) = False \<and>
         take_damage a2 (snd (take_damage amount e)) = (False, snd (take_damage amount e)) \<and>
         take_damage a2 ((snd (take_damage amount e))\<lparr>alive := True\<rparr>)
           = (False, (snd (take_damage amount e))\<lparr>alive := True\<rparr>) \<and>
         take_damage a2 ((snd (take_damage amount e))\<lparr>invuln_timer := 0\<rparr>)
           = (False, (snd (take_damage amount e))\<lparr>invuln_timer := 0\<rparr>)"
  using assms by (simp add: take_damage_def Let_def)

theorem killing_blow_keeps_invulnerability_witness:
  "alive ((Enemy_init (0, 0))\<lparr>hp := 24\<rparr>) \<and>
   invuln_timer ((Enemy_init (0, 0))\<lparr>hp := 24\<rparr>) \<le> 0 \<and>
   hp ((Enemy_init (0, 0))\<lparr>hp := 24\<rparr>) - 28 \<le> 0 \<and>
   snd (take_damage 28 ((Enemy_init (0, 0))\<lparr>hp := 24\<rparr>))
     = (Enemy_init (0, 0))\<lparr>hp := - 4, invuln_timer := 0.5, alive := False\<rparr> \<and>
   take_damage 28 (snd (take_damage 28 ((Enemy_init (0, 0))\<lparr>hp := 24\<rparr>)))
     = (False, snd (take_damage 28 ((Enemy_init (0, 0))\<lparr>hp := 24\<rparr>)))"
proof -
  have a: "alive ((Enemy_init (0, 0))\<lparr>hp := 24\<rparr>)"
    and i: "invuln_timer ((Enemy_init (0, 0))\<lparr>hp := 24\<rparr>) \<le> 0"
    and h: "hp ((Enemy_init (0, 0))\<lparr>hp := 24\<rparr>) - 28 \<le> 0"
    by (simp_all add: Enemy_init_def)
  have v: "snd (take_damage 28 ((Enemy_init (0, 0))\<lparr>hp := 24\<rparr>))
     = (Enemy_init (0, 0))\<lparr>hp := - 4, invuln_timer := 0.5, alive := False\<rparr>"
    by (simp add: take_damage_def Enemy_init_def Let_def)
  from killing_blow_keeps_invulnerability [OF a i h, of 28] a i h v show ?thesis
    by blast
qed

section \<open>Collision (C7)\<close>

subsection \<open>The test over the reals\<close>

lemma circle_collide_commute: "circle_collide a ra b rb = circle_collide b rb a ra"
  by (simp add: circle_collide_def length_squared_vsub_commute [of a b] add.commute)



subsection \<open>The test in binary64\<close>

declare bit_length.simps [simp del]









text \<open>Ties go to the even significand: \<^verbatim>\<open>float(2**53 + 1)\<close> and \<^verbatim>\<open>float(2**53 + 3)\<close>.\<close>

lemma round64_ties:
  "round64 (9007199254740993, 0) = (4503599627370496, 1)"
  "round64 (9007199254740995, 0) = (4503599627370498, 1)"
  "round64 (- 9007199254740995, 0) = (- 4503599627370498, 1)"
  by (simp_all add: round64_def Let_def bit_length.simps)


subsection \<open>Two pairs of circles at the boundary\<close>











section \<open>Stamina (C4)\<close>

lemma update_timers_stamina [simp]: "stamina (update_timers dt p) = stamina p"
  by (simp add: update_timers_def)

lemma face_step_stamina [simp]: "stamina (face_step k p) = stamina p"
  by (simp add: face_step_def)

lemma regen_step_stamina:
  "stamina (regen_step dt p) =
     (if is_rolling p then stamina p else max 0 (min 100 (stamina p + 20 * dt)))"
  by (simp add: regen_step_def clamp_def STAMINA_MAX_def STAMINA_RECOVERY_RATE_def)

lemma roll_step_stamina:
  "stamina (roll_step k p) =
     (if roll_cooldown p \<le> 0 \<and> (K_SPACE k \<or> mouse2 k) \<and> 20 \<le> stamina p
      then stamina p - 20 else stamina p)"
  by (simp add: roll_step_def)

lemma light_step_stamina:
  "stamina (fst (light_step k p)) =
     (if attack_cooldown p \<le> 0 \<and> (K_j k \<or> mouse0 k) \<and> 12 \<le> stamina p
      then stamina p - 12 else stamina p)"
  by (simp add: light_step_def LIGHT_ATTACK_COST_def)

lemma heavy_step_stamina:
  "stamina (fst (heavy_step k pa)) =
     (if attack_cooldown (fst pa) \<le> 0 \<and> K_k k \<and> 28 \<le> stamina (fst pa)
      then stamina (fst pa) - 28 else stamina (fst pa))"
  by (simp add: heavy_step_def HEAVY_ATTACK_COST_def Let_def)

lemma tick_attack_timer_stamina [simp]: "stamina (tick_attack_timer dt p) = stamina p"
  by (simp add: tick_attack_timer_def)

lemma tick_attack_cooldown_stamina [simp]: "stamina (tick_attack_cooldown dt p) = stamina p"
  by (simp add: tick_attack_cooldown_def)

lemma tick_roll_timer_stamina [simp]: "stamina (tick_roll_timer dt p) = stamina p"
  by (simp add: tick_roll_timer_def Let_def)

lemma tick_roll_cooldown_stamina [simp]: "stamina (tick_roll_cooldown dt p) = stamina p"
  by (simp add: tick_roll_cooldown_def)

lemma tick_step_stamina [simp]: "stamina (tick_step dt p) = stamina p"
  by (simp add: tick_step_def)

lemma move_step_stamina [simp]: "stamina (move_step dt mv a p) = stamina p"
  by (simp add: move_step_def Let_def)

lemma regen_step_ok: "stamina_ok p \<Longrightarrow> stamina_ok (regen_step dt p)"
  by (simp add: stamina_ok_def regen_step_stamina STAMINA_MAX_def)

lemma roll_step_ok: "stamina_ok p \<Longrightarrow> stamina_ok (roll_step k p)"
  by (simp add: stamina_ok_def roll_step_stamina)

lemma light_step_ok: "stamina_ok p \<Longrightarrow> stamina_ok (fst (light_step k p))"
  by (simp add: stamina_ok_def light_step_stamina)

lemma heavy_step_ok: "stamina_ok (fst pa) \<Longrightarrow> stamina_ok (fst (heavy_step k pa))"
  by (simp add: stamina_ok_def heavy_step_stamina)

lemma stamina_ok_cong: "stamina q = stamina p \<Longrightarrow> stamina_ok p \<Longrightarrow> stamina_ok q"
  by (simp add: stamina_ok_def)

lemma player_update_ok:
  assumes "stamina_ok p"
  shows "stamina_ok (player_update dt k p)"
proof -
  have "stamina_ok (face_step k (update_timers dt p))"
    using assms by (rule stamina_ok_cong [rotated]) simp
  have 3: "stamina_ok (regen_step dt (face_step k (update_timers dt p)))"
    using \<open>stamina_ok (face_step k (update_timers dt p))\<close> by (rule regen_step_ok)
  have 6: "stamina_ok (fst (heavy_step k (light_step k (roll_step k
             (regen_step dt (face_step k (update_timers dt p)))))))"
    by (intro heavy_step_ok light_step_ok roll_step_ok 3)
  show ?thesis
    unfolding player_update_def Let_def
    by (rule stamina_ok_cong [OF _ 6]) simp
qed

lemma player_frames_ok: "stamina_ok p \<Longrightarrow> stamina_ok (player_frames fs p)"
  by (induction fs arbitrary: p) (simp_all add: player_update_ok)


text \<open>
  C4: over every sequence of frames, with any inputs and any \<open>dt\<close>, the stamina of a player
  that starts within \<open>[0, 100]\<close> stays within \<open>[0, 100]\<close>; the player created by
  \<open>Player.__init__\<close> starts there. The regeneration is clamped to \<open>[0, 100]\<close> and is
  skipped while rolling, and each debit (roll 20, light attack 12, heavy attack 28) happens
  only when the stamina at that moment is at least the cost. The one other operation on a
  player, \<open>take_damage\<close>, does not touch the stamina.
\<close>

theorem stamina_within_bounds:
  "(0 \<le> stamina p \<and> stamina p \<le> 100 \<longrightarrow>
      0 \<le> stamina (player_frames fs p) \<and> stamina (player_frames fs p) \<le> 100) \<and>
   0 \<le> stamina (player_frames fs (Player_init x)) \<and>
   stamina (player_frames fs (Player_init x)) \<le> 100 \<and>
   (\<not> is_rolling p \<longrightarrow> 0 \<le> stamina (regen_step dt p) \<and> stamina (regen_step dt p) \<le> 100) \<and>
   (is_rolling p \<longrightarrow> stamina (regen_step dt p) = stamina p) \<and>
   (stamina (roll_step k p) = stamina p \<or>
      20 \<le> stamina p \<and> stamina (roll_step k p) = stamina p - 20) \<and>
   (stamina (fst (light_step k p)) = stamina p \<or>
      12 \<le> stamina p \<and> stamina (fst (light_step k p)) = stamina p - 12) \<and>
   (stamina (fst (heavy_step k (p, a))) = stamina p \<or>
      28 \<le> stamina p \<and> stamina (fst (heavy_step k (p, a))) = stamina p - 28) \<and>
   stamina (snd (take_damage amount p)) = stamina p"
proof (intro conjI impI)
  assume "0 \<le> stamina p \<and> stamina p \<le> 100"
  then have "stamina_ok (player_frames fs p)"
    by (intro player_frames_ok) (simp add: stamina_ok_def STAMINA_MAX_def)
  then show "0 \<le> stamina (player_frames fs p)" and "stamina (player_frames fs p) \<le> 100"
    by (simp_all add: stamina_ok_def STAMINA_MAX_def)
next
  have "stamina_ok (player_frames fs (Player_init x))"
    by (intro player_frames_ok) (simp add: stamina_ok_def Player_init_def STAMINA_MAX_def)
  then show "0 \<le> stamina (player_frames fs (Player_init x))"
    and "stamina (player_frames fs (Player_init x)) \<le> 100"
    by (simp_all add: stamina_ok_def STAMINA_MAX_def)
next
  assume "\<not> is_rolling p"
  then show "0 \<le> stamina (regen_step dt p)" and "stamina (regen_step dt p) \<le> 100"
    by (simp_all add: regen_step_stamina)
next
  assume "is_rolling p"
  then show "stamina (regen_step dt p) = stamina p"
    by (simp add: regen_step_stamina)
next
  show "stamina (roll_step k p) = stamina p \<or>
      20 \<le> stamina p \<and> stamina (roll_step k p) = stamina p - 20"
    by (simp add: roll_step_stamina)
next
  show "stamina (fst (light_step k p)) = stamina p \<or>
      12 \<le> stamina p \<and> stamina (fst (light_step k p)) = stamina p - 12"
    by (simp add: light_step_stamina)
next
  show "stamina (fst (heavy_step k (p, a))) = stamina p \<or>
      28 \<le> stamina p \<and> stamina (fst (heavy_step k (p, a))) = stamina p - 28"
    by (simp add: heavy_step_stamina)
next
  show "stamina (snd (take_damage amount p)) = stamina p"
    by (simp add: take_damage_def Let_def)
qed

theorem stamina_within_bounds_witness:
  "0 \<le> stamina (Player_init (960, 540)) \<and> stamina (Player_init (960, 540)) \<le> 100 \<and>
   0 \<le> stamina (player_frames [(0.01, no_input\<lparr>K_SPACE := True, K_j := True\<rparr>)]
          (Player_init (960, 540))) \<and>
   stamina (player_frames [(0.01, no_input\<lparr>K_SPACE := True, K_j := True\<rparr>)]
          (Player_init (960, 540))) \<le> 100 \<and>
   stamina (regen_step 0.01 ((Player_init (960, 540))\<lparr>stamina := 50\<rparr>)) = 50.2 \<and>
   stamina (regen_step 0.01 ((Player_init (960, 540))\<lparr>stamina := 50, is_rolling := True\<rparr>)) = 50"
  using stamina_within_bounds [where p = "Player_init (960, 540)"
      and fs = "[(0.01, no_input\<lparr>K_SPACE := True, K_j := True\<rparr>)]"]
    stamina_within_bounds [where p = "(Player_init (960, 540))\<lparr>stamina := 50\<rparr>" and dt = "0.01"]
    stamina_within_bounds [where p = "(Player_init (960, 540))\<lparr>stamina := 50, is_rolling := True\<rparr>"
      and dt = "0.01"]
  by (simp add: Player_init_def STAMINA_MAX_def regen_step_stamina)

section \<open>The roll (C5)\<close>

text \<open>
  C5: the roll block of \<open>Player.update\<close> (lines 102--109) starts a roll, that is changes
  the player, iff the roll input (space or mouse button 2) is pressed, \<open>roll_cooldown \<le> 0\<close>
  and \<open>stamina \<ge> 20\<close> at the attempt. On start the stamina decreases by exactly 20,
  \<open>roll_cooldown\<close> becomes 0.8, \<open>roll_timer\<close> 0.26, \<open>invuln_timer\<close> 0.28, \<open>is_rolling\<close>
  True and the velocity \<open>facing \<times> 420\<close>; nothing else changes.
\<close>

theorem roll_start:
  "(roll_step k p \<noteq> p \<longleftrightarrow> (K_SPACE k \<or> mouse2 k) \<and> roll_cooldown p \<le> 0 \<and> stamina p \<ge> 20) \<and>
   ((K_SPACE k \<or> mouse2 k) \<and> roll_cooldown p \<le> 0 \<and> stamina p \<ge> 20 \<longrightarrow>
      stamina (roll_step k p) = stamina p - 20 \<and>
      roll_cooldown (roll_step k p) = 0.8 \<and>
      roll_timer (roll_step k p) = 0.26 \<and>
      invuln_timer (roll_step k p) = 0.28 \<and>
      is_rolling (roll_step k p) \<and>
      vel (roll_step k p) = vscale (facing p) 420 \<and>
      roll_step k p = p\<lparr>is_rolling := True, roll_timer := 0.26, roll_cooldown := 0.8,
        invuln_timer := 0.28, stamina := stamina p - 20, vel := vscale (facing p) 420\<rparr>)"
proof (intro conjI impI)
  show "roll_step k p \<noteq> p \<longleftrightarrow> (K_SPACE k \<or> mouse2 k) \<and> roll_cooldown p \<le> 0 \<and> stamina p \<ge> 20"
  proof
    assume "roll_step k p \<noteq> p"
    then show "(K_SPACE k \<or> mouse2 k) \<and> roll_cooldown p \<le> 0 \<and> stamina p \<ge> 20"
      by (simp add: roll_step_def split: if_splits)
  next
    assume "(K_SPACE k \<or> mouse2 k) \<and> roll_cooldown p \<le> 0 \<and> stamina p \<ge> 20"
    then have "stamina (roll_step k p) \<noteq> stamina p"
      by (simp add: roll_step_stamina)
    then show "roll_step k p \<noteq> p" by auto
  qed
qed (simp_all add: roll_step_def ROLL_COOLDOWN_def INVULN_TIME_def ROLL_SPEED_def)

theorem roll_start_witness:
  "roll_step (no_input\<lparr>K_SPACE := True\<rparr>) (Player_init (960, 540)) \<noteq> Player_init (960, 540) \<and>
   roll_step (no_input\<lparr>K_SPACE := True\<rparr>) (Player_init (960, 540))
     = (Player_init (960, 540))\<lparr>is_rolling := True, roll_timer := 0.26, roll_cooldown := 0.8,
          invuln_timer := 0.28, stamina := 80, vel := (420, 0)\<rparr> \<and>
   roll_step (no_input\<lparr>K_SPACE := True\<rparr>) ((Player_init (960, 540))\<lparr>stamina := 19\<rparr>)
     = (Player_init (960, 540))\<lparr>stamina := 19\<rparr>"
  using roll_start [of "no_input\<lparr>K_SPACE := True\<rparr>" "Player_init (960, 540)"]
    roll_start [of "no_input\<lparr>K_SPACE := True\<rparr>" "(Player_init (960, 540))\<lparr>stamina := 19\<rparr>"]
  by (simp add: no_input_def Player_init_def STAMINA_MAX_def vscale_def)

section \<open>Light and heavy attack (C6)\<close>

text \<open>
  C6: in the attack blocks of \<open>Player.update\<close> (lines 111--123) at most one attack
  starts: when the light attack has started, the heavy block leaves the player as it is.
  The light attack starts iff its input (J or mouse button 0) is pressed,
  \<open>attack_cooldown \<le> 0\<close> and \<open>stamina \<ge> 12\<close>. When both inputs are pressed with
  \<open>attack_cooldown \<le> 0\<close> and stamina enough for either attack, the light attack starts
  (\<open>attack_timer = 0.18\<close>, \<open>attack_cooldown = 0.45\<close>, stamina debited 12) and the heavy
  attack does not.
\<close>

theorem one_attack_per_frame:
  "\<not> (snd (light_step k p) \<and> fst (heavy_step k (light_step k p)) \<noteq> fst (light_step k p)) \<and>
   (snd (light_step k p) \<longleftrightarrow>
      attack_cooldown p \<le> 0 \<and> (K_j k \<or> mouse0 k) \<and> stamina p \<ge> 12) \<and>
   (attack_cooldown p \<le> 0 \<and> (K_j k \<or> mouse0 k) \<and> K_k k \<and> stamina p \<ge> 28 \<longrightarrow>
      heavy_step k (light_step k p)
        = (p\<lparr>attack_timer := 0.18, attack_cooldown := 0.45, stamina := stamina p - 12\<rparr>, True))"
proof (intro conjI impI)
  show "\<not> (snd (light_step k p) \<and> fst (heavy_step k (light_step k p)) \<noteq> fst (light_step k p))"
    by (simp add: light_step_def heavy_step_def Let_def ATTACK_COOLDOWN_def)
next
  show "snd (light_step k p) \<longleftrightarrow>
      attack_cooldown p \<le> 0 \<and> (K_j k \<or> mouse0 k) \<and> stamina p \<ge> 12"
    by (simp add: light_step_def LIGHT_ATTACK_COST_def)
next
  assume "attack_cooldown p \<le> 0 \<and> (K_j k \<or> mouse0 k) \<and> K_k k \<and> stamina p \<ge> 28"
  then show "heavy_step k (light_step k p)
        = (p\<lparr>attack_timer := 0.18, attack_cooldown := 0.45, stamina := stamina p - 12\<rparr>, True)"
    by (simp add: light_step_def heavy_step_def Let_def ATTACK_COOLDOWN_def LIGHT_ATTACK_COST_def)
qed

theorem one_attack_per_frame_witness:
  "heavy_step (no_input\<lparr>K_j := True, K_k := True\<rparr>)
     (light_step (no_input\<lparr>K_j := True, K_k := True\<rparr>) (Player_init (960, 540)))
   = ((Player_init (960, 540))\<lparr>attack_timer := 0.18, attack_cooldown := 0.45, stamina := 88\<rparr>,
      True)"
  using one_attack_per_frame [of "no_input\<lparr>K_j := True, K_k := True\<rparr>" "Player_init (960, 540)"]
  by (simp add: no_input_def Player_init_def STAMINA_MAX_def)

section \<open>The attack hitbox (C8)\<close>

lemma vlength_unit_of:
  assumes "length_squared a > 0"
  shows "vlength (unit_of a) = 1"
proof -
  have l: "vlength a > 0" using assms by (simp add: vlength_def)
  have "length_squared (unit_of a) = length_squared a / (vlength a)\<^sup>2"
    by (simp add: unit_of_def length_squared_def power2_eq_square add_divide_distrib)
  also have "\<dots> = 1" using assms by (simp add: vlength_squared)
  finally show ?thesis by (simp add: vlength_def)
qed

lemma unit_of_unit: "vlength a = 1 \<Longrightarrow> unit_of a = a"
  by (simp add: unit_of_def)

lemma update_timers_facing [simp]: "facing (update_timers dt p) = facing p"
  by (simp add: update_timers_def)

lemma face_step_facing:
  "facing (face_step k p) = (if length_squared (move_input k) > 0 then unit_of (move_input k) else facing p)"
  by (simp add: face_step_def move_dir_def)

lemma regen_step_facing [simp]: "facing (regen_step dt p) = facing p"
  by (simp add: regen_step_def)

lemma roll_step_facing [simp]: "facing (roll_step k p) = facing p"
  by (simp add: roll_step_def)

lemma light_step_facing [simp]: "facing (fst (light_step k p)) = facing p"
  by (simp add: light_step_def)

lemma heavy_step_facing [simp]: "facing (fst (heavy_step k pa)) = facing (fst pa)"
  by (simp add: heavy_step_def Let_def)

lemma tick_step_facing [simp]: "facing (tick_step dt p) = facing p"
proof -
  have "facing (tick_attack_timer dt q) = facing q"
    "facing (tick_attack_cooldown dt q) = facing q"
    "facing (tick_roll_timer dt q) = facing q"
    "facing (tick_roll_cooldown dt q) = facing q" for q
    by (simp_all add: tick_attack_timer_def tick_attack_cooldown_def tick_roll_timer_def
        tick_roll_cooldown_def Let_def)
  then show ?thesis by (simp add: tick_step_def)
qed

lemma move_step_facing [simp]: "facing (move_step dt mv a p) = facing p"
  by (simp add: move_step_def Let_def)

lemma player_update_facing:
  "facing (player_update dt k p) =
     (if length_squared (move_input k) > 0 then unit_of (move_input k) else facing p)"
  by (simp add: player_update_def Let_def face_step_facing)

lemma take_damage_facing [simp]: "facing (snd (take_damage amount p)) = facing p"
  by (simp add: take_damage_def Let_def)

text \<open>
  C8: for a player whose \<open>facing\<close> is a unit vector, \<open>attack_hitbox\<close> returns a hitbox
  iff \<open>attack_timer > 0\<close>; the hitbox is the circle of radius 30 centred at
  \<open>pos + facing \<times> (radius + 24)\<close>, and there is none when \<open>attack_timer \<le> 0\<close>. The
  facing of a new player is the unit vector \<open>(1, 0)\<close>, its radius is 16, and
  \<open>Player.update\<close> and \<open>take_damage\<close> keep the facing a unit vector, so the hypothesis
  holds in every state the simulation reaches.
\<close>

theorem attack_hitbox_geometry:
  "(vlength (facing p) = 1 \<longrightarrow>
      (attack_timer p > 0 \<longrightarrow>
         attack_hitbox p
           = Inr (Some (vadd (pos p) (vscale (facing p) (radius p + 24)), 30))) \<and>
      (\<not> attack_timer p > 0 \<longrightarrow> attack_hitbox p = Inr None) \<and>
      ((\<exists>h. attack_hitbox p = Inr (Some h)) \<longleftrightarrow> attack_timer p > 0)) \<and>
   vlength (facing (Player_init x)) = 1 \<and> radius (Player_init x) = 16 \<and>
   (vlength (facing p) = 1 \<longrightarrow> vlength (facing (player_update dt k p)) = 1) \<and>
   (vlength (facing p) = 1 \<longrightarrow> vlength (facing (snd (take_damage amount p))) = 1)"
proof (intro conjI impI)
  assume u: "vlength (facing p) = 1"
  then have n: "normalize (facing p) = Inr (facing p)"
    by (simp add: normalize_def unit_of_unit)
  show "attack_hitbox p = Inr (Some (vadd (pos p) (vscale (facing p) (radius p + 24)), 30))"
    if "attack_timer p > 0"
    using that by (simp add: attack_hitbox_def n ATTACK_RANGE_def)
  show "attack_hitbox p = Inr None" if "\<not> attack_timer p > 0"
    using that by (simp add: attack_hitbox_def)
  show "(\<exists>h. attack_hitbox p = Inr (Some h)) \<longleftrightarrow> attack_timer p > 0"
    by (cases "attack_timer p > 0") (simp_all add: attack_hitbox_def n ATTACK_RANGE_def)
next
  show "vlength (facing (Player_init x)) = 1"
    by (simp add: Player_init_def vlength_def length_squared_def)
next
  show "radius (Player_init x) = 16"
    by (simp add: Player_init_def)
next
  assume "vlength (facing p) = 1"
  then show "vlength (facing (player_update dt k p)) = 1"
    by (simp add: player_update_facing vlength_unit_of)
next
  assume "vlength (facing p) = 1"
  then show "vlength (facing (snd (take_damage amount p))) = 1"
    by simp
qed

theorem attack_hitbox_geometry_witness:
  "attack_hitbox ((Player_init (0, 0))\<lparr>attack_timer := 0.18\<rparr>) = Inr (Some ((40, 0), 30)) \<and>
   attack_hitbox (Player_init (0, 0)) = Inr None"
proof -
  have u: "vlength (facing ((Player_init (0, 0))\<lparr>attack_timer := 0.18\<rparr>)) = 1"
    "vlength (facing (Player_init (0, 0))) = 1"
    by (simp_all add: Player_init_def vlength_def length_squared_def)
  show ?thesis
    using attack_hitbox_geometry [where p = "(Player_init (0, 0))\<lparr>attack_timer := 0.18\<rparr>"]
      attack_hitbox_geometry [where p = "Player_init (0, 0)"] u
    by (simp add: Player_init_def vadd_def vscale_def)
qed


section \<open>The countdowns (C9)\<close>

subsection \<open>What the countdown blocks of the player do to each field\<close>

lemma tick_attack_timer_fields:
  "attack_timer (tick_attack_timer dt p) =
     (if attack_timer p > 0 then max 0 (attack_timer p - dt) else attack_timer p)"
  "attack_cooldown (tick_attack_timer dt p) = attack_cooldown p"
  "roll_timer (tick_attack_timer dt p) = roll_timer p"
  "roll_cooldown (tick_attack_timer dt p) = roll_cooldown p"
  "is_rolling (tick_attack_timer dt p) = is_rolling p"
  by (simp_all add: tick_attack_timer_def)

lemma tick_attack_cooldown_fields:
  "attack_timer (tick_attack_cooldown dt p) = attack_timer p"
  "attack_cooldown (tick_attack_cooldown dt p) =
     (if attack_cooldown p > 0 then max 0 (attack_cooldown p - dt) else attack_cooldown p)"
  "roll_timer (tick_attack_cooldown dt p) = roll_timer p"
  "roll_cooldown (tick_attack_cooldown dt p) = roll_cooldown p"
  "is_rolling (tick_attack_cooldown dt p) = is_rolling p"
  by (simp_all add: tick_attack_cooldown_def)

lemma tick_roll_timer_fields:
  "attack_timer (tick_roll_timer dt p) = attack_timer p"
  "attack_cooldown (tick_roll_timer dt p) = attack_cooldown p"
  "roll_timer (tick_roll_timer dt p) =
     (if roll_timer p > 0 then max 0 (roll_timer p - dt) else roll_timer p)"
  "roll_cooldown (tick_roll_timer dt p) = roll_cooldown p"
  "is_rolling (tick_roll_timer dt p) =
     (if roll_timer p > 0 \<and> max 0 (roll_timer p - dt) = 0 then False else is_rolling p)"
  by (simp_all add: tick_roll_timer_def Let_def)

lemma tick_roll_cooldown_fields:
  "attack_timer (tick_roll_cooldown dt p) = attack_timer p"
  "attack_cooldown (tick_roll_cooldown dt p) = attack_cooldown p"
  "roll_timer (tick_roll_cooldown dt p) = roll_timer p"
  "roll_cooldown (tick_roll_cooldown dt p) =
     (if roll_cooldown p > 0 then max 0 (roll_cooldown p - dt) else roll_cooldown p)"
  "is_rolling (tick_roll_cooldown dt p) = is_rolling p"
  by (simp_all add: tick_roll_cooldown_def)

lemma tick_step_fields:
  "attack_timer (tick_step dt p) =
     (if attack_timer p > 0 then max 0 (attack_timer p - dt) else attack_timer p)"
  "attack_cooldown (tick_step dt p) =
     (if attack_cooldown p > 0 then max 0 (attack_cooldown p - dt) else attack_cooldown p)"
  "roll_timer (tick_step dt p) =
     (if roll_timer p > 0 then max 0 (roll_timer p - dt) else roll_timer p)"
  "roll_cooldown (tick_step dt p) =
     (if roll_cooldown p > 0 then max 0 (roll_cooldown p - dt) else roll_cooldown p)"
  "is_rolling (tick_step dt p) =
     (if roll_timer p > 0 \<and> max 0 (roll_timer p - dt) = 0 then False else is_rolling p)"
  unfolding tick_step_def
  by (simp_all only: tick_attack_timer_fields tick_attack_cooldown_fields tick_roll_timer_fields
      tick_roll_cooldown_fields)

subsection \<open>The countdowns against the rule of the specification\<close>

lemma guarded_countdown:
  "0 \<le> t \<Longrightarrow> 0 \<le> dt \<Longrightarrow> (if t > 0 then max 0 (t - dt) else t) = spec_advance t dt"
  by (simp add: spec_advance_def)

lemma enemy_update_dead:
  "\<not> alive e \<Longrightarrow> enemy_update dt rnd e pl = Inr (respawn_step dt rnd (update_timers dt e), pl)"
  by (simp add: enemy_update_def Let_def)

lemma update_timers_pos [simp]: "pos (update_timers dt e) = pos e"
  by (simp add: update_timers_def)

lemma enemy_update_far:
  "alive e \<Longrightarrow> \<not> vlength (vsub (pos pl) (pos e)) < 300 \<Longrightarrow>
     enemy_update dt rnd e pl = Inr (clamp_pos (wander_step dt rnd (update_timers dt e)), pl)"
  by (simp add: enemy_update_def Let_def)

lemma update_timers_enemy_fields [simp]:
  "enemy_attack_cooldown (update_timers dt e) = enemy_attack_cooldown e"
  "respawn_time (update_timers dt e) = respawn_time e"
  by (simp_all add: update_timers_def)

lemma respawn_step_fields:
  "enemy_attack_cooldown (respawn_step dt rnd e) = enemy_attack_cooldown e"
  "respawn_time (respawn_step dt rnd e) =
     (if respawn_time e \<le> 0 then respawn_draw rnd else respawn_time e - dt)"
  by (simp_all add: respawn_step_def Let_def)

lemma wander_step_cooldown [simp]:
  "enemy_attack_cooldown (wander_step dt rnd e) = enemy_attack_cooldown e"
  by (simp add: wander_step_def Let_def)

lemma clamp_pos_cooldown [simp]:
  "enemy_attack_cooldown (clamp_pos e) = enemy_attack_cooldown e"
  by (simp add: clamp_pos_def Let_def)

lemma enemy_update_cooldown_frozen:
  assumes "enemy_update dt rnd e pl = Inr (e', pl')"
    and "\<not> alive e \<or> \<not> vlength (vsub (pos pl) (pos e)) < 300"
  shows "enemy_attack_cooldown e' = enemy_attack_cooldown e"
proof (cases "alive e")
  case False
  from assms(1) have "(Inr (e', pl') :: error + enemy \<times> player) = enemy_update dt rnd e pl" by simp
  also from False have "\<dots> = Inr (respawn_step dt rnd (update_timers dt e), pl)"
    by (rule enemy_update_dead)
  finally have "(Inr (e', pl') :: error + enemy \<times> player) = Inr (respawn_step dt rnd (update_timers dt e), pl)" .
  then have "e' = respawn_step dt rnd (update_timers dt e)"
    by simp
  then show ?thesis by (simp add: respawn_step_fields)
next
  case True
  from assms(1) have "(Inr (e', pl') :: error + enemy \<times> player) = enemy_update dt rnd e pl" by simp
  also from True assms(2)
  have "\<dots> = Inr (clamp_pos (wander_step dt rnd (update_timers dt e)), pl)"
    by (intro enemy_update_far) simp_all
  finally have "(Inr (e', pl') :: error + enemy \<times> player) = Inr (clamp_pos (wander_step dt rnd (update_timers dt e)), pl)" .
  then have "e' = clamp_pos (wander_step dt rnd (update_timers dt e))"
    by simp
  then show ?thesis by simp
qed

text \<open>
  C9, as stated, has every countdown advanced by \<open>max(0, timer - dt)\<close>. The respawn timer
  of an enemy is not: \<open>Enemy.update\<close> subtracts \<open>dt\<close> from it without a clamp. A dead
  enemy with 0.005 left comes out of a frame of \<open>dt = 0.01\<close> with the timer at \<open>-0.005\<close>,
  where the rule gives 0.
\<close>

theorem respawn_timer_counterexample:
  "enemy_update 0.01 \<lparr>respawn_draw = 4, wander_roll = 0.5, wander_angle = 0\<rparr>
     ((Enemy_init (0, 0))\<lparr>hp := - 4, alive := False, respawn_time := 0.005\<rparr>) (Player_init (0, 0))
     = Inr ((Enemy_init (0, 0))\<lparr>hp := 80, alive := True, respawn_time := - 0.005\<rparr>,
            Player_init (0, 0)) \<and>
   spec_advance 0.005 0.01 = 0"
  using dead_enemy_update by (simp add: spec_advance_def)

text \<open>
  C9, amended: the countdown of every field but the respawn timer (the invulnerability
  timer in \<open>update_timers\<close>; attack timer, attack cooldown, roll timer and roll cooldown in
  the countdown blocks of \<open>Player.update\<close>; the attack cooldown of an enemy) is
  \<open>max(0, timer - dt)\<close>, applied while the timer is positive, which is the rule
  \<open>advance\<close> for a timer and a \<open>dt\<close> that are not negative. The attack cooldown of an
  enemy is counted down only in the frames where the enemy is alive and the player is
  nearer than 300; otherwise \<open>Enemy.update\<close> leaves it as it is. The respawn timer of a dead
  enemy, once positive, is decremented by plain subtraction, \<open>timer - dt\<close>, and ends below 0
  when \<open>dt\<close> exceeds it.
\<close>

theorem countdown_rules:
  "(0 \<le> invuln_timer e \<and> 0 \<le> dt \<longrightarrow>
      invuln_timer (update_timers dt e) = spec_advance (invuln_timer e) dt) \<and>
   (0 \<le> attack_timer p \<and> 0 \<le> dt \<longrightarrow>
      attack_timer (tick_step dt p) = spec_advance (attack_timer p) dt) \<and>
   (0 \<le> attack_cooldown p \<and> 0 \<le> dt \<longrightarrow>
      attack_cooldown (tick_step dt p) = spec_advance (attack_cooldown p) dt) \<and>
   (0 \<le> roll_timer p \<and> 0 \<le> dt \<longrightarrow>
      roll_timer (tick_step dt p) = spec_advance (roll_timer p) dt) \<and>
   (0 \<le> roll_cooldown p \<and> 0 \<le> dt \<longrightarrow>
      roll_cooldown (tick_step dt p) = spec_advance (roll_cooldown p) dt) \<and>
   (0 \<le> enemy_attack_cooldown en \<and> 0 \<le> dt \<longrightarrow>
      enemy_attack_cooldown (enemy_tick dt en) = spec_advance (enemy_attack_cooldown en) dt) \<and>
   (enemy_update dt rnd en pl = Inr (en', pl') \<and>
      (\<not> alive en \<or> \<not> vlength (vsub (pos pl) (pos en)) < 300) \<longrightarrow>
      enemy_attack_cooldown en' = enemy_attack_cooldown en) \<and>
   (enemy_update dt rnd en pl = Inr (en', pl') \<and> \<not> alive en \<and> 0 < respawn_time en \<longrightarrow>
      respawn_time en' = respawn_time en - dt \<and>
      (respawn_time en < dt \<longrightarrow> respawn_time en' < 0 \<and>
         respawn_time en' \<noteq> spec_advance (respawn_time en) dt))"
proof (intro conjI impI)
  assume "0 \<le> invuln_timer e \<and> 0 \<le> dt"
  then show "invuln_timer (update_timers dt e) = spec_advance (invuln_timer e) dt"
    by (simp add: update_timers_def spec_advance_def)
next
  assume "0 \<le> attack_timer p \<and> 0 \<le> dt"
  then show "attack_timer (tick_step dt p) = spec_advance (attack_timer p) dt"
    by (simp only: tick_step_fields guarded_countdown)
next
  assume "0 \<le> attack_cooldown p \<and> 0 \<le> dt"
  then show "attack_cooldown (tick_step dt p) = spec_advance (attack_cooldown p) dt"
    by (simp only: tick_step_fields guarded_countdown)
next
  assume "0 \<le> roll_timer p \<and> 0 \<le> dt"
  then show "roll_timer (tick_step dt p) = spec_advance (roll_timer p) dt"
    by (simp only: tick_step_fields guarded_countdown)
next
  assume "0 \<le> roll_cooldown p \<and> 0 \<le> dt"
  then show "roll_cooldown (tick_step dt p) = spec_advance (roll_cooldown p) dt"
    by (simp only: tick_step_fields guarded_countdown)
next
  assume "0 \<le> enemy_attack_cooldown en \<and> 0 \<le> dt"
  then show "enemy_attack_cooldown (enemy_tick dt en) = spec_advance (enemy_attack_cooldown en) dt"
    by (simp add: enemy_tick_def spec_advance_def)
next
  assume "enemy_update dt rnd en pl = Inr (en', pl') \<and>
      (\<not> alive en \<or> \<not> vlength (vsub (pos pl) (pos en)) < 300)"
  then show "enemy_attack_cooldown en' = enemy_attack_cooldown en"
    using enemy_update_cooldown_frozen [of dt rnd en pl en' pl'] by blast
next
  assume a: "enemy_update dt rnd en pl = Inr (en', pl') \<and> \<not> alive en \<and> 0 < respawn_time en"
  then have "(Inr (en', pl') :: error + enemy \<times> player) = enemy_update dt rnd en pl" by simp
  also from a have "\<dots> = Inr (respawn_step dt rnd (update_timers dt en), pl)"
    by (intro enemy_update_dead) simp
  finally have "(Inr (en', pl') :: error + enemy \<times> player) = Inr (respawn_step dt rnd (update_timers dt en), pl)" .
  then have "en' = respawn_step dt rnd (update_timers dt en)"
    by simp
  with a show r: "respawn_time en' = respawn_time en - dt"
    by (simp add: respawn_step_fields)
  show "respawn_time en' < 0" if "respawn_time en < dt"
    using that r by simp
  show "respawn_time en' \<noteq> spec_advance (respawn_time en) dt" if "respawn_time en < dt"
    using that r by (simp add: spec_advance_def)
qed

theorem countdown_rules_witness:
  "invuln_timer (update_timers 0.01 ((Enemy_init (0, 0))\<lparr>invuln_timer := 0.5\<rparr>)) = 0.49 \<and>
   attack_timer (tick_step 0.01 ((Player_init (0, 0))\<lparr>attack_timer := 0.18,
       attack_cooldown := 0.45, roll_timer := 0.26, roll_cooldown := 0.8\<rparr>)) = 0.17 \<and>
   attack_cooldown (tick_step 0.01 ((Player_init (0, 0))\<lparr>attack_timer := 0.18,
       attack_cooldown := 0.45, roll_timer := 0.26, roll_cooldown := 0.8\<rparr>)) = 0.44 \<and>
   roll_timer (tick_step 0.01 ((Player_init (0, 0))\<lparr>attack_timer := 0.18,
       attack_cooldown := 0.45, roll_timer := 0.26, roll_cooldown := 0.8\<rparr>)) = 0.25 \<and>
   roll_cooldown (tick_step 0.01 ((Player_init (0, 0))\<lparr>attack_timer := 0.18,
       attack_cooldown := 0.45, roll_timer := 0.26, roll_cooldown := 0.8\<rparr>)) = 0.79 \<and>
   enemy_attack_cooldown (enemy_tick 0.01
       ((Enemy_init (0, 0))\<lparr>hp := - 4, alive := False, respawn_time := 0.005\<rparr>)) = 0 \<and>
   respawn_time ((Enemy_init (0, 0))\<lparr>hp := 80, alive := True, respawn_time := - 0.005\<rparr>)
     = 0.005 - 0.01"
  using countdown_rules [where e = "(Enemy_init (0, 0))\<lparr>invuln_timer := 0.5\<rparr>" and dt = "0.01"
      and p = "(Player_init (0, 0))\<lparr>attack_timer := 0.18,
       attack_cooldown := 0.45, roll_timer := 0.26, roll_cooldown := 0.8\<rparr>"
      and en = "(Enemy_init (0, 0))\<lparr>hp := - 4, alive := False, respawn_time := 0.005\<rparr>"
      and rnd = "\<lparr>respawn_draw = 4, wander_roll = 0.5, wander_angle = 0\<rparr>"
      and pl = "Player_init (0, 0)"
      and en' = "(Enemy_init (0, 0))\<lparr>hp := 80, alive := True, respawn_time := - 0.005\<rparr>"
      and pl' = "Player_init (0, 0)"] dead_enemy_update
  by (simp add: spec_advance_def Enemy_init_def Player_init_def)

section \<open>Rolling and attacking in one frame (C3)\<close>

lemma pre_steps_fields:
  "roll_cooldown (regen_step dt (face_step k (update_timers dt p))) = roll_cooldown p"
  "attack_cooldown (regen_step dt (face_step k (update_timers dt p))) = attack_cooldown p"
  by (simp_all add: regen_step_def face_step_def update_timers_def)

lemma pre_steps_stamina:
  "stamina (regen_step dt (face_step k (update_timers dt p))) =
     (if is_rolling p then stamina p else max 0 (min 100 (stamina p + 20 * dt)))"
  by (simp add: regen_step_stamina face_step_def update_timers_def)

lemma move_step_fields [simp]:
  "is_rolling (move_step dt mv a p) = is_rolling p"
  "attack_timer (move_step dt mv a p) = attack_timer p"
  by (simp_all add: move_step_def Let_def)

lemma roll_step_changed:
  "roll_step k p \<noteq> p \<longleftrightarrow> (K_SPACE k \<or> mouse2 k) \<and> roll_cooldown p \<le> 0 \<and> stamina p \<ge> 20"
proof
  assume "roll_step k p \<noteq> p"
  then show "(K_SPACE k \<or> mouse2 k) \<and> roll_cooldown p \<le> 0 \<and> stamina p \<ge> 20"
    by (simp add: roll_step_def split: if_splits)
next
  assume "(K_SPACE k \<or> mouse2 k) \<and> roll_cooldown p \<le> 0 \<and> stamina p \<ge> 20"
  then have "stamina (roll_step k p) \<noteq> stamina p"
    by (simp add: roll_step_stamina)
  then show "roll_step k p \<noteq> p" by auto
qed

lemma roll_step_started:
  "(K_SPACE k \<or> mouse2 k) \<and> roll_cooldown p \<le> 0 \<and> stamina p \<ge> 20 \<Longrightarrow>
     roll_step k p = p\<lparr>is_rolling := True, roll_timer := 0.26, roll_cooldown := 0.8,
        invuln_timer := 0.28, stamina := stamina p - 20, vel := vscale (facing p) 420\<rparr>"
  by (simp add: roll_step_def ROLL_COOLDOWN_def INVULN_TIME_def ROLL_SPEED_def)

lemma light_step_started:
  "attack_cooldown p \<le> 0 \<and> (K_j k \<or> mouse0 k) \<and> stamina p \<ge> 12 \<Longrightarrow>
     light_step k p
       = (p\<lparr>attack_timer := 0.18, attack_cooldown := 0.45, stamina := stamina p - 12\<rparr>, True)"
  by (simp add: light_step_def ATTACK_COOLDOWN_def LIGHT_ATTACK_COST_def)

lemma heavy_step_blocked: "attack_cooldown (fst pa) > 0 \<Longrightarrow> heavy_step k pa = pa"
  by (simp add: heavy_step_def Let_def)

lemma roll_and_light_frame:
  assumes roll: "K_SPACE k \<or> mouse2 k" "roll_cooldown p \<le> 0"
    and light: "K_j k \<or> mouse0 k" "attack_cooldown p \<le> 0"
    and st: "stamina p \<ge> 32" and dt: "0 \<le> dt" "dt < 0.18"
  shows "is_rolling (player_update dt k p) \<and> attack_timer (player_update dt k p) = 0.18 - dt"
proof -
  define p3 where "p3 = regen_step dt (face_step k (update_timers dt p))"
  define p4 where "p4 = roll_step k p3"
  define p5 where "p5 = p4\<lparr>attack_timer := 0.18, attack_cooldown := 0.45, stamina := stamina p4 - 12\<rparr>"
  have s3: "stamina p3 \<ge> 32"
    using st dt by (simp add: p3_def pre_steps_stamina)
  have c3: "roll_cooldown p3 \<le> 0" "attack_cooldown p3 \<le> 0"
    using roll light by (simp_all add: p3_def pre_steps_fields)
  have p4: "p4 = p3\<lparr>is_rolling := True, roll_timer := 0.26, roll_cooldown := 0.8,
        invuln_timer := 0.28, stamina := stamina p3 - 20, vel := vscale (facing p3) 420\<rparr>"
    unfolding p4_def using roll s3 c3 by (intro roll_step_started) simp
  have f4: "attack_cooldown p4 \<le> 0" "stamina p4 \<ge> 12" "is_rolling p4" "roll_timer p4 = 0.26"
    using s3 c3 by (simp_all add: p4)
  have l: "light_step k p4 = (p5, True)"
    unfolding p5_def using light f4 by (intro light_step_started) simp
  have f5: "attack_timer p5 = 0.18" "roll_timer p5 = 0.26" "is_rolling p5" "attack_cooldown p5 > 0"
    using f4 by (simp_all add: p5_def)
  have h: "heavy_step k (light_step k p4) = (p5, True)"
    using f5 by (simp add: l heavy_step_blocked)
  have upd: "player_update dt k p = move_step dt (move_dir k) True (tick_step dt p5)"
    by (simp add: player_update_def Let_def h [unfolded p4_def p3_def])
  show ?thesis
    using dt f5 by (simp add: upd tick_step_fields)
qed

subsection \<open>A frame traced block by block\<close>

text \<open>
  The new player at the centre of the arena, Space and J held, \<open>dt = 0.01\<close>: the state
  after each block of \<open>Player.update\<close>.
\<close>

lemma traced_move_input: "move_input (no_input\<lparr>K_SPACE := True, K_j := True\<rparr>) = (0, 0)"
  by (simp add: move_input_def no_input_def)

lemma traced_move_dir: "move_dir (no_input\<lparr>K_SPACE := True, K_j := True\<rparr>) = (0, 0)"
  by (simp add: move_dir_def traced_move_input length_squared_def)

lemma traced_update_timers: "update_timers 0.01 (Player_init (960, 540)) = Player_init (960, 540)"
  by (simp add: update_timers_def Player_init_def)

lemma traced_face_step: "face_step (no_input\<lparr>K_SPACE := True, K_j := True\<rparr>) (Player_init (960, 540)) = Player_init (960, 540)"
  by (simp add: face_step_def traced_move_input length_squared_def)

lemma traced_regen_step: "regen_step 0.01 (Player_init (960, 540)) = Player_init (960, 540)"
  by (simp add: regen_step_def Player_init_def clamp_def STAMINA_MAX_def STAMINA_RECOVERY_RATE_def)

lemma traced_roll_step: "roll_step (no_input\<lparr>K_SPACE := True, K_j := True\<rparr>) (Player_init (960, 540))
  = (Player_init (960, 540))\<lparr>vel := (420, 0), invuln_timer := 0.28,
        stamina := 80, roll_timer := 0.26, roll_cooldown := 0.8, is_rolling := True\<rparr>"
  by (simp add: roll_step_def Player_init_def no_input_def vscale_def consts_defs)

lemma traced_light_step: "light_step (no_input\<lparr>K_SPACE := True, K_j := True\<rparr>)
     ((Player_init (960, 540))\<lparr>vel := (420, 0), invuln_timer := 0.28,
        stamina := 80, roll_timer := 0.26, roll_cooldown := 0.8, is_rolling := True\<rparr>)
  = ((Player_init (960, 540))\<lparr>vel := (420, 0), invuln_timer := 0.28,
        stamina := 68, attack_timer := 0.18, attack_cooldown := 0.45, roll_timer := 0.26,
        roll_cooldown := 0.8, is_rolling := True\<rparr>, True)"
  by (simp add: light_step_def Player_init_def no_input_def consts_defs)

lemma traced_heavy_step: "heavy_step (no_input\<lparr>K_SPACE := True, K_j := True\<rparr>)
     ((Player_init (960, 540))\<lparr>vel := (420, 0), invuln_timer := 0.28,
        stamina := 68, attack_timer := 0.18, attack_cooldown := 0.45, roll_timer := 0.26,
        roll_cooldown := 0.8, is_rolling := True\<rparr>, True)
  = ((Player_init (960, 540))\<lparr>vel := (420, 0), invuln_timer := 0.28,
        stamina := 68, attack_timer := 0.18, attack_cooldown := 0.45, roll_timer := 0.26,
        roll_cooldown := 0.8, is_rolling := True\<rparr>, True)"
  by (simp add: heavy_step_def Let_def no_input_def)

lemma traced_tick_step: "tick_step 0.01
     ((Player_init (960, 540))\<lparr>vel := (420, 0), invuln_timer := 0.28,
        stamina := 68, attack_timer := 0.18, attack_cooldown := 0.45, roll_timer := 0.26,
        roll_cooldown := 0.8, is_rolling := True\<rparr>)
  = (Player_init (960, 540))\<lparr>vel := (420, 0), invuln_timer := 0.28,
        stamina := 68, attack_timer := 0.17, attack_cooldown := 0.44, roll_timer := 0.25,
        roll_cooldown := 0.79, is_rolling := True\<rparr>"
proof -
  have a: "tick_attack_timer 0.01
     ((Player_init (960, 540))\<lparr>vel := (420, 0), invuln_timer := 0.28,
        stamina := 68, attack_timer := 0.18, attack_cooldown := 0.45, roll_timer := 0.26,
        roll_cooldown := 0.8, is_rolling := True\<rparr>)
     = (Player_init (960, 540))\<lparr>vel := (420, 0), invuln_timer := 0.28,
        stamina := 68, attack_timer := 0.17, attack_cooldown := 0.45, roll_timer := 0.26,
        roll_cooldown := 0.8, is_rolling := True\<rparr>"
    by (simp add: tick_attack_timer_def Player_init_def)
  have b: "tick_attack_cooldown 0.01
     ((Player_init (960, 540))\<lparr>vel := (420, 0), invuln_timer := 0.28,
        stamina := 68, attack_timer := 0.17, attack_cooldown := 0.45, roll_timer := 0.26,
        roll_cooldown := 0.8, is_rolling := True\<rparr>)
     = (Player_init (960, 540))\<lparr>vel := (420, 0), invuln_timer := 0.28,
        stamina := 68, attack_timer := 0.17, attack_cooldown := 0.44, roll_timer := 0.26,
        roll_cooldown := 0.8, is_rolling := True\<rparr>"
    by (simp add: tick_attack_cooldown_def Player_init_def)
  have c: "tick_roll_timer 0.01
     ((Player_init (960, 540))\<lparr>vel := (420, 0), invuln_timer := 0.28,
        stamina := 68, attack_timer := 0.17, attack_cooldown := 0.44, roll_timer := 0.26,
        roll_cooldown := 0.8, is_rolling := True\<rparr>)
     = (Player_init (960, 540))\<lparr>vel := (420, 0), invuln_timer := 0.28,
        stamina := 68, attack_timer := 0.17, attack_cooldown := 0.44, roll_timer := 0.25,
        roll_cooldown := 0.8, is_rolling := True\<rparr>"
    by (simp add: tick_roll_timer_def Player_init_def Let_def)
  have d: "tick_roll_cooldown 0.01
     ((Player_init (960, 540))\<lparr>vel := (420, 0), invuln_timer := 0.28,
        stamina := 68, attack_timer := 0.17, attack_cooldown := 0.44, roll_timer := 0.25,
        roll_cooldown := 0.8, is_rolling := True\<rparr>)
     = (Player_init (960, 540))\<lparr>vel := (420, 0), invuln_timer := 0.28,
        stamina := 68, attack_timer := 0.17, attack_cooldown := 0.44, roll_timer := 0.25,
        roll_cooldown := 0.79, is_rolling := True\<rparr>"
    by (simp add: tick_roll_cooldown_def Player_init_def)
  show ?thesis
    unfolding tick_step_def by (simp only: a b c d)
qed

lemma traced_move_step: "move_step 0.01 (0, 0) True
     ((Player_init (960, 540))\<lparr>vel := (420, 0), invuln_timer := 0.28,
        stamina := 68, attack_timer := 0.17, attack_cooldown := 0.44, roll_timer := 0.25,
        roll_cooldown := 0.79, is_rolling := True\<rparr>)
  = (Player_init (960, 540))\<lparr>pos := (964.2, 540), vel := (420, 0), invuln_timer := 0.28,
        stamina := 68, attack_timer := 0.17, attack_cooldown := 0.44, roll_timer := 0.25,
        roll_cooldown := 0.79, is_rolling := True\<rparr>"
  by (simp add: move_step_def Let_def Player_init_def vadd_def vscale_def clamp_def WIDTH_def
      HEIGHT_def)

lemma roll_and_light_frame_value:
  "player_update 0.01 (no_input\<lparr>K_SPACE := True, K_j := True\<rparr>) (Player_init (960, 540))
   = (Player_init (960, 540))\<lparr>pos := (964.2, 540), vel := (420, 0), invuln_timer := 0.28,
        stamina := 68, attack_timer := 0.17, attack_cooldown := 0.44, roll_timer := 0.25,
        roll_cooldown := 0.79, is_rolling := True\<rparr>"
  unfolding player_update_def Let_def
  by (simp only: traced_update_timers traced_face_step traced_regen_step traced_roll_step
      traced_light_step traced_heavy_step traced_tick_step traced_move_step traced_move_dir
      fst_conv snd_conv)

text \<open>
  C3, as stated, has no frame in which a roll and an attack both start, and no state in
  which the player is rolling with an active attack window. In the traced frame both start:
  the stamina pays for both (100 - 20 - 12 = 68), both cooldowns run, and the frame ends
  with \<open>is_rolling\<close> and \<open>attack_timer = 0.17 > 0\<close>.
\<close>

theorem roll_attack_exclusion_counterexample:
  "is_rolling (player_update 0.01 (no_input\<lparr>K_SPACE := True, K_j := True\<rparr>) (Player_init (960, 540))) \<and>
   0 < attack_timer (player_update 0.01 (no_input\<lparr>K_SPACE := True, K_j := True\<rparr>)
         (Player_init (960, 540))) \<and>
   stamina (player_update 0.01 (no_input\<lparr>K_SPACE := True, K_j := True\<rparr>)
         (Player_init (960, 540))) = 68 \<and>
   roll_cooldown (player_update 0.01 (no_input\<lparr>K_SPACE := True, K_j := True\<rparr>)
         (Player_init (960, 540))) = 0.79 \<and>
   attack_cooldown (player_update 0.01 (no_input\<lparr>K_SPACE := True, K_j := True\<rparr>)
         (Player_init (960, 540))) = 0.44"
  unfolding roll_and_light_frame_value by simp

text \<open>
  C3, amended: rolling and attacking are not exclusive. The roll block and the attack
  blocks of \<open>Player.update\<close> are guarded independently and share only the stamina: a roll
  and a light attack both start in a frame iff the roll input and the light-attack input
  are pressed, \<open>roll_cooldown \<le> 0\<close>, \<open>attack_cooldown \<le> 0\<close> and the stamina at the roll
  attempt is at least 32, the two costs together. A frame that begins so, with stamina at
  least 32 and \<open>0 \<le> dt < 0.18\<close>, ends with the player rolling and
  \<open>attack_timer = 0.18 - dt > 0\<close>.
\<close>

theorem roll_and_attack_same_frame:
  "((roll_step k p \<noteq> p \<and> snd (light_step k (roll_step k p))) \<longleftrightarrow>
      (K_SPACE k \<or> mouse2 k) \<and> roll_cooldown p \<le> 0 \<and>
      (K_j k \<or> mouse0 k) \<and> attack_cooldown p \<le> 0 \<and> stamina p \<ge> 32) \<and>
   ((K_SPACE k \<or> mouse2 k) \<and> roll_cooldown p \<le> 0 \<and>
    (K_j k \<or> mouse0 k) \<and> attack_cooldown p \<le> 0 \<and> stamina p \<ge> 32 \<and> 0 \<le> dt \<and> dt < 0.18 \<longrightarrow>
      is_rolling (player_update dt k p) \<and>
      attack_timer (player_update dt k p) = 0.18 - dt \<and>
      0 < attack_timer (player_update dt k p))"
proof (intro conjI impI)
  show "(roll_step k p \<noteq> p \<and> snd (light_step k (roll_step k p))) \<longleftrightarrow>
      (K_SPACE k \<or> mouse2 k) \<and> roll_cooldown p \<le> 0 \<and>
      (K_j k \<or> mouse0 k) \<and> attack_cooldown p \<le> 0 \<and> stamina p \<ge> 32"
  proof (cases "(K_SPACE k \<or> mouse2 k) \<and> roll_cooldown p \<le> 0 \<and> stamina p \<ge> 20")
    case True
    then have ch: "roll_step k p \<noteq> p" by (simp only: roll_step_changed)
    from True have "snd (light_step k (roll_step k p)) \<longleftrightarrow>
      attack_cooldown p \<le> 0 \<and> (K_j k \<or> mouse0 k) \<and> stamina p - 20 \<ge> 12"
      by (simp add: roll_step_started light_step_def LIGHT_ATTACK_COST_def)
    with ch True show ?thesis by auto
  next
    case False
    then have "roll_step k p = p" using roll_step_changed [of k p] by blast
    with False show ?thesis by auto
  qed
next
  assume a: "(K_SPACE k \<or> mouse2 k) \<and> roll_cooldown p \<le> 0 \<and>
    (K_j k \<or> mouse0 k) \<and> attack_cooldown p \<le> 0 \<and> stamina p \<ge> 32 \<and> 0 \<le> dt \<and> dt < 0.18"
  then have r: "is_rolling (player_update dt k p) \<and> attack_timer (player_update dt k p) = 0.18 - dt"
    by (intro roll_and_light_frame) simp_all
  from r show "is_rolling (player_update dt k p)" by simp
  from r show "attack_timer (player_update dt k p) = 0.18 - dt" by simp
  from r a show "0 < attack_timer (player_update dt k p)" by simp
qed

theorem roll_and_attack_same_frame_witness:
  "is_rolling (player_update 0.01 (no_input\<lparr>K_SPACE := True, K_j := True\<rparr>) (Player_init (960, 540))) \<and>
   attack_timer (player_update 0.01 (no_input\<lparr>K_SPACE := True, K_j := True\<rparr>) (Player_init (960, 540)))
     = 0.17"
  using roll_and_attack_same_frame [of "no_input\<lparr>K_SPACE := True, K_j := True\<rparr>"
      "Player_init (960, 540)" "0.01"]
  by (simp add: no_input_def Player_init_def STAMINA_MAX_def)


end
